theory Spec2Isabelle
  imports Complex_Main "HOL-Library.Log_Nat"
begin

section \<open>Common conventions\<close>

text \<open>
  The sources are JavaScript classes. Numbers are modelled as \<open>int\<close> where the code
  only ever holds integers (millisecond timestamps, counters, HTTP status codes). Where
  the code divides or multiplies by a fraction (rates, scores, averages) a number is the
  \<open>real\<close> value of a finite double, and every arithmetic step is rounded to the nearest
  double by \<open>double\<close> below. The weights and the drawn value of weighted round-robin
  are plain reals. \<open>Date.now()\<close> is the parameter \<open>now\<close>, read once per operation,
  and \<open>Math.random()\<close> is the parameter \<open>u\<close>. A value that may be \<open>undefined\<close>
  or \<open>null\<close> is an \<open>option\<close>, \<open>None\<close> standing for \<open>undefined\<close>. A
  \<open>throw\<close> is the left injection of a sum.
\<close>

datatype js_error =
  Error string             \<comment> \<open>\<open>throw new Error(msg)\<close>\<close>
| ReferenceError string    \<comment> \<open>an identifier that is bound nowhere in scope\<close>
| TypeError string         \<comment> \<open>a property read on \<open>undefined\<close>\<close>

text \<open>\<open>xs[i]\<close> on a JavaScript array: \<open>undefined\<close> out of range.\<close>

definition at_index :: "'a list \<Rightarrow> nat \<Rightarrow> 'a option" where
  "at_index xs i = (if i < length xs then Some (xs ! i) else None)"

subsection \<open>Double-precision arithmetic\<close>

text \<open>Rounding to the nearest integer, a tie going to the even one.\<close>

definition roundTiesToEven :: "real \<Rightarrow> int" where
  "roundTiesToEven z =
     (let n = \<lfloor>z\<rfloor>; f = z - of_int n
      in if f < 1 / 2 then n else if 1 / 2 < f then n + 1 else if even n then n else n + 1)"

text \<open>
  The IEEE 754 binary64 value nearest to a real, ties to even: what a JavaScript
  arithmetic operation returns for the exact result \<open>x\<close>. The doubles are the integer
  multiples of \<open>2 ^ e / 2 ^ 1074\<close> with a multiplier below \<open>2 ^ 53\<close>; \<open>e\<close> is 0
  in the subnormal range. Overflow to \<open>Infinity\<close> is not modelled: no step of the
  functions below overflows on the metrics that \<open>updateOriginMetrics\<close> writes (a
  success rate of at most 1).
\<close>

definition double :: "real \<Rightarrow> real" where
  "double x =
     (let y = \<bar>x\<bar> * 2 ^ 1074;
          e = nat (bitlen \<lfloor>y\<rfloor> - 53)
      in sgn x * of_int (roundTiesToEven (y / 2 ^ e)) * 2 ^ e / 2 ^ 1074)"

section \<open>HealthChecker (src/unnamed/part\_001)\<close>

record checks =
  connectivity :: bool
  responseTimeCheck :: bool   \<comment> \<open>\<open>checks.responseTime\<close>\<close>
  statusCode :: bool
  ssl :: bool

record health =
  healthy :: bool
  responseTime :: "int option"
  error :: "string option"
  h_timestamp :: int          \<comment> \<open>\<open>health.timestamp\<close>, the start of the probe\<close>
  checks :: checks

text \<open>An entry of \<open>healthCache\<close>: \<open>{ health, timestamp: Date.now() }\<close>.\<close>

record cached =
  health :: health
  timestamp :: int

text \<open>An entry of the error log \<open>metrics.errors\<close>.\<close>

record error_entry =
  err_timestamp :: int        \<comment> \<open>\<open>timestamp\<close> of the logged error\<close>
  err_error :: "string option"
  err_checks :: checks

record metrics =
  totalChecks :: nat
  successfulChecks :: nat
  totalResponseTime :: int
  errors :: "error_entry list"
  successRate :: real
  averageResponseTime :: real
  errorRate :: real

record config =
  MONITORING_INTERVAL :: "int option"
  FAILOVER_TIMEOUT :: "int option"

text \<open>
  \<open>healthCache\<close> is keyed by the string \<open>health:<origin>\<close>; \<open>metrics\<close> is a
  JavaScript \<open>Map\<close>, which iterates in insertion order, hence an association list.
\<close>

record HealthChecker =
  healthCache :: "string \<rightharpoonup> cached"
  checkInterval :: int
  timeout :: int
  metrics :: "(string \<times> metrics) list"

text \<open>\<open>x || d\<close> on a number that may be missing: \<open>undefined\<close> and \<open>0\<close> are falsy.\<close>

definition or_default :: "'a::zero option \<Rightarrow> 'a \<Rightarrow> 'a" where
  "or_default v d = (case v of None \<Rightarrow> d | Some x \<Rightarrow> if x = 0 then d else x)"

definition new_HealthChecker :: "config \<Rightarrow> HealthChecker" where
  "new_HealthChecker cfg =
     \<lparr> healthCache = Map.empty,
       checkInterval = or_default (MONITORING_INTERVAL cfg) 30000,
       timeout = or_default (FAILOVER_TIMEOUT cfg) 5000,
       metrics = [] \<rparr>"

text \<open>\<open>this.healthThresholds.responseTime\<close>, a literal of the constructor, in ms.\<close>

definition healthThresholds_responseTime :: real where
  "healthThresholds_responseTime = 2000"

text \<open>
  \<open>metrics.errors.filter(e => Date.now() - e.timestamp < this.checkInterval * 5).length\<close>
\<close>

definition recentErrors :: "HealthChecker \<Rightarrow> metrics \<Rightarrow> int \<Rightarrow> nat" where
  "recentErrors hc m now =
     length (filter (\<lambda>e. now - err_timestamp e < checkInterval hc * 5) (errors m))"

text \<open>
  \<open>calculateHealthScore(metrics)\<close>, each operation rounded to a double in the order
  in which the source evaluates it; the literals \<open>0.4\<close> and \<open>0.3\<close> are the doubles
  nearest to them. \<open>Math.round\<close> rounds a half towards plus infinity, which is
  \<open>round\<close> of HOL (\<open>round x = \<lfloor>x + 1/2\<rfloor>\<close>).
\<close>

definition calculateHealthScore :: "HealthChecker \<Rightarrow> metrics \<Rightarrow> int \<Rightarrow> int" where
  "calculateHealthScore hc m now =
     (if totalChecks m = 0 then 0
      else
        let successWeight = double 0.4;
            responseTimeWeight = double 0.3;
            recentHealthWeight = double 0.3;
            successScore = double (successRate m * 100);
            avgResponseTime = (if averageResponseTime m = 0 then 0 else averageResponseTime m);
            responseScore =
              max 0 (double (100 - double (double (avgResponseTime / healthThresholds_responseTime)
                                           * 100)));
            recentScore = max 0 (double (100 - double (real (recentErrors hc m now) * 20)));
            healthScore =
              double (double (double (successScore * successWeight)
                              + double (responseScore * responseTimeWeight))
                      + double (recentScore * recentHealthWeight))
        in round healthScore)"

definition getOriginStatus :: "HealthChecker \<Rightarrow> metrics \<Rightarrow> int \<Rightarrow> string" where
  "getOriginStatus hc m now =
     (let healthScore = calculateHealthScore hc m now
      in if healthScore \<ge> 90 then ''excellent''
         else if healthScore \<ge> 75 then ''good''
         else if healthScore \<ge> 50 then ''fair''
         else if healthScore \<ge> 25 then ''poor''
         else ''critical'')"

text \<open>An item of \<open>getOriginsByHealth()\<close>.\<close>

record scored =
  origin :: string
  healthScore :: int
  status :: string

text \<open>
  \<open>getOriginsByHealth()\<close>: the entries of \<open>metrics\<close> with their scores, sorted by
  \<open>(a, b) => b.healthScore - a.healthScore\<close>. \<open>Array.prototype.sort\<close> is stable, and
  so is \<open>sort_key\<close>; descending order is ascending order of the negated score.
\<close>

definition getOriginsByHealth :: "HealthChecker \<Rightarrow> int \<Rightarrow> scored list" where
  "getOriginsByHealth hc now =
     sort_key (\<lambda>item. - healthScore item)
       (map (\<lambda>(orig, m). \<lparr> origin = orig,
                            healthScore = calculateHealthScore hc m now,
                            status = getOriginStatus hc m now \<rparr>)
            (metrics hc))"

text \<open>\<open>isOriginHealthy(origin)\<close>\<close>

definition isOriginHealthy :: "HealthChecker \<Rightarrow> string \<Rightarrow> int \<Rightarrow> bool" where
  "isOriginHealthy hc orig now =
     (case healthCache hc (''health:'' @ orig) of
        None \<Rightarrow> False
      | Some entry \<Rightarrow>
          if now - timestamp entry > checkInterval hc * 2 then False
          else healthy (health entry))"

section \<open>LoadBalancer (src/unnamed/part\_000)\<close>

text \<open>The request context; \<open>isFailover\<close> is absent (falsy) until failover sets it.\<close>

record request_context =
  edgeColo :: "string option"
  country :: "string option"
  userAgent :: "string option"
  isFailover :: bool

text \<open>An element of a latency history: \<open>{ latency, timestamp: Date.now() }\<close>.\<close>

record sample =
  latency :: int
  s_timestamp :: int          \<comment> \<open>\<open>timestamp\<close> of the sample\<close>

text \<open>
  The maps of the class are JavaScript \<open>Map\<close>s keyed by origin. A value of
  \<open>geographicMapping\<close> may be \<open>undefined\<close>, as \<open>origins[1]\<close> is when fewer
  origins are configured.
\<close>

record LoadBalancer =
  origins :: "string list"
  currentAlgorithm :: string
  roundRobinIndex :: nat
  connectionCounts :: "string \<rightharpoonup> int"
  latencyHistory :: "string \<rightharpoonup> sample list"
  weights :: "string \<rightharpoonup> real"
  geographicMapping :: "string \<rightharpoonup> string option"

definition ROUND_ROBIN :: string where "ROUND_ROBIN = ''round_robin''"
definition LEAST_CONNECTIONS :: string where "LEAST_CONNECTIONS = ''least_connections''"
definition WEIGHTED_ROUND_ROBIN :: string where "WEIGHTED_ROUND_ROBIN = ''weighted_round_robin''"
definition LATENCY_BASED :: string where "LATENCY_BASED = ''latency_based''"
definition GEOGRAPHIC :: string where "GEOGRAPHIC = ''geographic''"
definition HEALTH_SCORE :: string where "HEALTH_SCORE = ''health_score''"

text \<open>\<open>Object.values(this.algorithms)\<close>\<close>

definition algorithms :: "string list" where
  "algorithms = [ROUND_ROBIN, LEAST_CONNECTIONS, WEIGHTED_ROUND_ROBIN, LATENCY_BASED,
                 GEOGRAPHIC, HEALTH_SCORE]"

text \<open>\<open>initializeWeights()\<close>: weight 1 and no connection for every configured origin.\<close>

definition initializeWeights :: "LoadBalancer \<Rightarrow> LoadBalancer" where
  "initializeWeights lb =
     foldl (\<lambda>s orig. s\<lparr> weights := (weights s)(orig \<mapsto> 1),
                          connectionCounts := (connectionCounts s)(orig \<mapsto> 0) \<rparr>)
           lb (origins lb)"

definition initializeGeographicMapping :: "LoadBalancer \<Rightarrow> LoadBalancer" where
  "initializeGeographicMapping lb =
     lb\<lparr> geographicMapping := (geographicMapping lb)
            (''LAX'' \<mapsto> at_index (origins lb) 0,
             ''DFW'' \<mapsto> at_index (origins lb) 1,
             ''JFK'' \<mapsto> at_index (origins lb) 0,
             ''LHR'' \<mapsto> at_index (origins lb) 2,
             ''NRT'' \<mapsto> at_index (origins lb) 1) \<rparr>"

text \<open>The constructor; the health checker is passed to each operation instead.\<close>

definition new_LoadBalancer :: "string list \<Rightarrow> LoadBalancer" where
  "new_LoadBalancer os =
     initializeGeographicMapping (initializeWeights
       \<lparr> origins = os,
         currentAlgorithm = HEALTH_SCORE,
         roundRobinIndex = 0,
         connectionCounts = Map.empty,
         latencyHistory = Map.empty,
         weights = Map.empty,
         geographicMapping = Map.empty \<rparr>)"

definition getHealthyOrigins :: "LoadBalancer \<Rightarrow> HealthChecker \<Rightarrow> int \<Rightarrow> string list" where
  "getHealthyOrigins lb hc now = filter (\<lambda>orig. isOriginHealthy hc orig now) (origins lb)"

text \<open>
  \<open>roundRobin(origins)\<close>. On an empty array the index is \<open>NaN\<close> and the read gives
  \<open>undefined\<close>.
\<close>

definition roundRobin :: "LoadBalancer \<Rightarrow> string list \<Rightarrow> string option \<times> LoadBalancer" where
  "roundRobin lb os =
     ((if os = [] then None else at_index os (roundRobinIndex lb mod length os)),
      lb\<lparr> roundRobinIndex := roundRobinIndex lb + 1 \<rparr>)"

text \<open>The \<open>for\<close> loop of \<open>leastConnections\<close>, on \<open>(selectedOrigin, minConnections)\<close>.\<close>

fun leastConnections_loop ::
  "(string \<rightharpoonup> int) \<Rightarrow> string list \<Rightarrow> string \<times> int \<Rightarrow> string \<times> int" where
  "leastConnections_loop counts [] (selectedOrigin, minConnections) =
     (selectedOrigin, minConnections)"
| "leastConnections_loop counts (orig # os) (selectedOrigin, minConnections) =
     (let connections = or_default (counts orig) 0
      in if connections < minConnections
         then leastConnections_loop counts os (orig, connections)
         else leastConnections_loop counts os (selectedOrigin, minConnections))"

text \<open>
  \<open>leastConnections(origins)\<close>. On an empty array the source returns \<open>undefined\<close> and
  stores a count under the key \<open>undefined\<close>, which no origin reads: the string-keyed
  part of the map, which is what \<open>connectionCounts\<close> holds here, stays as it is.
\<close>

fun leastConnections :: "LoadBalancer \<Rightarrow> string list \<Rightarrow> string option \<times> LoadBalancer" where
  "leastConnections lb [] = (None, lb)"
| "leastConnections lb (first # os) =
     (let (selectedOrigin, minConnections) =
            leastConnections_loop (connectionCounts lb) (first # os)
              (first, or_default (connectionCounts lb first) 0)
      in (Some selectedOrigin,
          lb\<lparr> connectionCounts := (connectionCounts lb)(selectedOrigin \<mapsto> minConnections + 1) \<rparr>))"

text \<open>\<open>this.weights.get(origin) || 1\<close>\<close>

definition weight_of :: "LoadBalancer \<Rightarrow> string \<Rightarrow> real" where
  "weight_of lb orig = or_default (weights lb orig) 1"

text \<open>\<open>origins.reduce((sum, origin) => sum + (this.weights.get(origin) || 1), 0)\<close>\<close>

definition totalWeight :: "LoadBalancer \<Rightarrow> string list \<Rightarrow> real" where
  "totalWeight lb os = foldl (\<lambda>sum orig. sum + weight_of lb orig) 0 os"

text \<open>The \<open>for\<close> loop of \<open>weightedRoundRobin\<close>; \<open>None\<close> when it falls through.\<close>

fun weightedRoundRobin_loop ::
  "LoadBalancer \<Rightarrow> real \<Rightarrow> real \<Rightarrow> string list \<Rightarrow> string option" where
  "weightedRoundRobin_loop lb random currentWeight [] = None"
| "weightedRoundRobin_loop lb random currentWeight (orig # os) =
     (let currentWeight' = currentWeight + weight_of lb orig
      in if random \<le> currentWeight' then Some orig
         else weightedRoundRobin_loop lb random currentWeight' os)"

definition weightedRoundRobin :: "LoadBalancer \<Rightarrow> string list \<Rightarrow> real \<Rightarrow> string option" where
  "weightedRoundRobin lb os u =
     (let random = u * totalWeight lb os
      in case weightedRoundRobin_loop lb random 0 os of
           Some orig \<Rightarrow> Some orig
         | None \<Rightarrow> at_index os 0)"

text \<open>
  \<open>latencyBased(_origins, _context)\<close>. The parameters are named \<open>_origins\<close> and
  \<open>_context\<close>, and the first statement of the body, \<open>let bestOrigin = origins[0]\<close>,
  reads \<open>origins\<close>, which no enclosing scope binds: the call throws a ReferenceError
  before anything else happens.
\<close>

definition latencyBased :: "LoadBalancer \<Rightarrow> string list \<Rightarrow> request_context \<Rightarrow> js_error + string option" where
  "latencyBased lb u_origins u_context = Inl (ReferenceError ''origins'')"

text \<open>
  \<open>selectClosestOrigin(_origins, _context)\<close>. Its first statement reads
  \<open>context.country\<close>, and \<open>context\<close> is bound nowhere: it throws a ReferenceError.
\<close>

definition selectClosestOrigin :: "LoadBalancer \<Rightarrow> string list \<Rightarrow> request_context \<Rightarrow> js_error + string option" where
  "selectClosestOrigin lb u_origins u_context = Inl (ReferenceError ''context'')"

text \<open>\<open>geographic(origins, context)\<close>; the empty string is falsy.\<close>

definition geographic :: "LoadBalancer \<Rightarrow> string list \<Rightarrow> request_context \<Rightarrow> js_error + string option" where
  "geographic lb os ctx =
     (let preferredOrigin =
            (case edgeColo ctx of None \<Rightarrow> None
             | Some colo \<Rightarrow> (case geographicMapping lb colo of None \<Rightarrow> None | Some v \<Rightarrow> v))
      in case preferredOrigin of
           Some p \<Rightarrow> if p \<noteq> [] \<and> p \<in> set os then Inr (Some p)
                     else selectClosestOrigin lb os ctx
         | None \<Rightarrow> selectClosestOrigin lb os ctx)"

text \<open>
  \<open>healthScoreBased(origins)\<close>. Reading \<open>.origin\<close> of an element that is not there
  is a TypeError.
\<close>

definition healthScoreBased ::
  "HealthChecker \<Rightarrow> string list \<Rightarrow> int \<Rightarrow> real \<Rightarrow> js_error + string option" where
  "healthScoreBased hc os now u =
     (let originsByHealth = filter (\<lambda>item. origin item \<in> set os) (getOriginsByHealth hc now)
      in if originsByHealth = [] then Inr (at_index os 0)
         else
           let bestHealthScore = healthScore (hd originsByHealth);
               topOrigins = filter (\<lambda>item. real_of_int (healthScore item)
                                              \<ge> double (real_of_int bestHealthScore * double 0.9))
                              originsByHealth;
               i = \<lfloor>u * real (length topOrigins)\<rfloor>
           in if 0 \<le> i \<and> i < int (length topOrigins)
              then Inr (Some (origin (topOrigins ! nat i)))
              else Inl (TypeError ''origin''))"

text \<open>
  \<open>getOptimalOrigin(context)\<close>, the spec's \<open>selectOrigin\<close>: the result, and the
  state the call leaves behind.
\<close>

definition getOptimalOrigin ::
  "LoadBalancer \<Rightarrow> HealthChecker \<Rightarrow> int \<Rightarrow> request_context \<Rightarrow> real
     \<Rightarrow> (js_error + string option) \<times> LoadBalancer" where
  "getOptimalOrigin lb hc now ctx u =
     (let healthyOrigins = getHealthyOrigins lb hc now
      in if length healthyOrigins = 0 then (Inr (at_index (origins lb) 0), lb)
         else if length healthyOrigins = 1 then (Inr (at_index healthyOrigins 0), lb)
         else if currentAlgorithm lb = ROUND_ROBIN then
           (let (r, lb') = roundRobin lb healthyOrigins in (Inr r, lb'))
         else if currentAlgorithm lb = LEAST_CONNECTIONS then
           (let (r, lb') = leastConnections lb healthyOrigins in (Inr r, lb'))
         else if currentAlgorithm lb = WEIGHTED_ROUND_ROBIN then
           (Inr (weightedRoundRobin lb healthyOrigins u), lb)
         else if currentAlgorithm lb = LATENCY_BASED then
           (latencyBased lb healthyOrigins ctx, lb)
         else if currentAlgorithm lb = GEOGRAPHIC then
           (geographic lb healthyOrigins ctx, lb)
         else if currentAlgorithm lb = HEALTH_SCORE then
           (healthScoreBased hc healthyOrigins now u, lb)
         else (let (r, lb') = roundRobin lb healthyOrigins in (Inr r, lb')))"

text \<open>
  \<open>getFailoverOrigin(failedOrigin, context)\<close>. \<open>alternativeOrigins[0] || failedOrigin\<close>
  takes the failed origin when the first alternative is missing or the empty string.
\<close>

definition getFailoverOrigin ::
  "LoadBalancer \<Rightarrow> HealthChecker \<Rightarrow> int \<Rightarrow> string \<Rightarrow> request_context \<Rightarrow> real
     \<Rightarrow> (js_error + string option) \<times> LoadBalancer" where
  "getFailoverOrigin lb hc now failedOrigin ctx u =
     (let alternativeOrigins = filter (\<lambda>orig. orig \<noteq> failedOrigin) (origins lb);
          healthyAlternatives = filter (\<lambda>orig. isOriginHealthy hc orig now) alternativeOrigins
      in if length healthyAlternatives = 0
         then (Inr (Some (case at_index alternativeOrigins 0 of
                            None \<Rightarrow> failedOrigin
                          | Some a \<Rightarrow> if a = [] then failedOrigin else a)), lb)
         else getOptimalOrigin lb hc now (ctx\<lparr> isFailover := True \<rparr>) u)"

definition recordLatency :: "LoadBalancer \<Rightarrow> string \<Rightarrow> int \<Rightarrow> int \<Rightarrow> LoadBalancer" where
  "recordLatency lb orig l now =
     (let history = (case latencyHistory lb orig of None \<Rightarrow> [] | Some h \<Rightarrow> h)
                    @ [\<lparr> latency = l, s_timestamp = now \<rparr>];
          history' = (if length history > 100 then drop (length history - 100) history
                      else history)
      in lb\<lparr> latencyHistory := (latencyHistory lb)(orig \<mapsto> history') \<rparr>)"

definition getAverageLatency :: "LoadBalancer \<Rightarrow> string \<Rightarrow> int \<Rightarrow> int" where
  "getAverageLatency lb orig now =
     (let history = (case latencyHistory lb orig of None \<Rightarrow> [] | Some h \<Rightarrow> h)
      in if length history = 0 then 1000
         else
           let cutoff = now - 10 * 60 * 1000;
               recentMeasurements = filter (\<lambda>m. s_timestamp m > cutoff) history
           in if length recentMeasurements = 0 then 1000
              else round (double (foldl (\<lambda>sum m. double (sum + real_of_int (latency m))) 0
                                         recentMeasurements
                                  / real (length recentMeasurements))))"

definition releaseConnection :: "LoadBalancer \<Rightarrow> string \<Rightarrow> LoadBalancer" where
  "releaseConnection lb orig =
     (let current = or_default (connectionCounts lb orig) 0
      in lb\<lparr> connectionCounts := (connectionCounts lb)(orig \<mapsto> max 0 (current - 1)) \<rparr>)"

definition setAlgorithm :: "LoadBalancer \<Rightarrow> string \<Rightarrow> (js_error + unit) \<times> LoadBalancer" where
  "setAlgorithm lb algorithm =
     (if algorithm \<in> set algorithms
      then (Inr (), lb\<lparr> currentAlgorithm := algorithm \<rparr>)
      else (Inl (Error (''Invalid algorithm: '' @ algorithm)), lb))"

text \<open>The message of the error also prints the weight, which is left out here.\<close>

definition setWeight :: "LoadBalancer \<Rightarrow> string \<Rightarrow> real \<Rightarrow> (js_error + unit) \<times> LoadBalancer" where
  "setWeight lb orig weight =
     (if orig \<in> set (origins lb) \<and> weight > 0
      then (Inr (), lb\<lparr> weights := (weights lb)(orig \<mapsto> weight) \<rparr>)
      else (Inl (Error (''Invalid origin or weight: '' @ orig)), lb))"

definition addGeographicMapping ::
  "LoadBalancer \<Rightarrow> string \<Rightarrow> string \<Rightarrow> (js_error + unit) \<times> LoadBalancer" where
  "addGeographicMapping lb colo orig =
     (if orig \<in> set (origins lb)
      then (Inr (), lb\<lparr> geographicMapping := (geographicMapping lb)(colo \<mapsto> Some orig) \<rparr>)
      else (Inl (Error (''Invalid origin: '' @ orig)), lb))"

section \<open>CacheManager (src/src/optimizers/pingOptimizer.js)\<close>

text \<open>
  A response as the cache reads it. \<open>headers\<close> is \<open>response.headers.get\<close>, by
  lower-case name, \<open>None\<close> for \<open>null\<close>; a header can be present with an empty
  value. \<open>body\<close> holds the bytes that \<open>response.arrayBuffer()\<close> yields.
\<close>

record response =
  status :: int
  headers :: "string \<rightharpoonup> string"
  body :: "nat list"

record strategy =
  ttl :: nat
  vary :: "string list"

text \<open>\<open>this.cacheStrategies\<close>, in the order of \<open>Object.entries\<close>.\<close>

definition cacheStrategies :: "(string \<times> strategy) list" where
  "cacheStrategies =
     [(''text/html'', \<lparr> ttl = 3600, vary = [''Accept-Encoding'', ''User-Agent''] \<rparr>),
      (''text/css'', \<lparr> ttl = 86400, vary = [''Accept-Encoding''] \<rparr>),
      (''application/javascript'', \<lparr> ttl = 86400, vary = [''Accept-Encoding''] \<rparr>),
      (''application/json'', \<lparr> ttl = 1800, vary = [''Accept-Encoding''] \<rparr>),
      (''image/'', \<lparr> ttl = 604800, vary = [''Accept''] \<rparr>),
      (''font/'', \<lparr> ttl = 2592000, vary = [] \<rparr>),
      (''default'', \<lparr> ttl = 3600, vary = [''Accept-Encoding''] \<rparr>)]"

text \<open>\<open>s.startsWith(p)\<close> and \<open>s.includes(sub)\<close> on strings.\<close>

definition startsWith :: "string \<Rightarrow> string \<Rightarrow> bool" where
  "startsWith s p \<longleftrightarrow> take (length p) s = p"

fun str_includes :: "string \<Rightarrow> string \<Rightarrow> bool" where
  "str_includes [] sub \<longleftrightarrow> sub = []"
| "str_includes (c # cs) sub \<longleftrightarrow> startsWith (c # cs) sub \<or> str_includes cs sub"

definition getCacheStrategy :: "string \<Rightarrow> strategy" where
  "getCacheStrategy contentType =
     (case find (\<lambda>(type, s). startsWith contentType type) cacheStrategies of
        Some (type, s) \<Rightarrow> s
      | None \<Rightarrow> \<lparr> ttl = 3600, vary = [''Accept-Encoding''] \<rparr>)"

text \<open>\<open>response.headers.get(name) || d\<close>: \<open>null\<close> and the empty string are falsy.\<close>

definition header_or :: "response \<Rightarrow> string \<Rightarrow> string \<Rightarrow> string" where
  "header_or r name d = (case headers r name of None \<Rightarrow> d | Some v \<Rightarrow> if v = [] then d else v)"

text \<open>Truthiness of \<open>response.headers.get(name)\<close>.\<close>

definition header_truthy :: "response \<Rightarrow> string \<Rightarrow> bool" where
  "header_truthy r name = (case headers r name of None \<Rightarrow> False | Some v \<Rightarrow> v \<noteq> [])"

text \<open>
  \<open>parseInt(string)\<close> with no radix: leading white space is skipped, a sign is read, a
  prefix \<open>0x\<close> or \<open>0X\<close> selects radix 16, and the longest run of digits is the
  value; \<open>None\<close> stands for \<open>NaN\<close>, the result when there is no digit. Header values
  are byte strings, so the white space is the ASCII one and the no-break space.
\<close>

definition isWhiteSpace :: "char \<Rightarrow> bool" where
  "isWhiteSpace c \<longleftrightarrow> c \<in> set [CHR 0x09, CHR 0x0A, CHR 0x0B, CHR 0x0C, CHR 0x0D, CHR 0x20, CHR 0xA0]"

definition digitValue :: "char \<Rightarrow> nat option" where
  "digitValue c =
     (let n = (of_char c :: nat)
      in if 48 \<le> n \<and> n \<le> 57 then Some (n - 48)
         else if 97 \<le> n \<and> n \<le> 122 then Some (n - 87)
         else if 65 \<le> n \<and> n \<le> 90 then Some (n - 55)
         else None)"

definition isDigit :: "nat \<Rightarrow> char \<Rightarrow> bool" where
  "isDigit radix c = (case digitValue c of None \<Rightarrow> False | Some d \<Rightarrow> d < radix)"

definition parseInt :: "string \<Rightarrow> int option" where
  "parseInt str =
     (let s = dropWhile isWhiteSpace str;
          sign = (if take 1 s = ''-'' then - 1 else 1);
          s1 = (if take 1 s = ''+'' \<or> take 1 s = ''-'' then drop 1 s else s);
          hex = (take 2 s1 = ''0x'' \<or> take 2 s1 = ''0X'');
          radix = (if hex then 16 else 10);
          s2 = (if hex then drop 2 s1 else s1);
          z = takeWhile (isDigit radix) s2
      in if z = [] then None
         else Some (sign * int (foldl (\<lambda>acc c. acc * radix
                                          + (case digitValue c of None \<Rightarrow> 0 | Some d \<Rightarrow> d)) 0 z)))"

text \<open>\<open>response.ok\<close>\<close>

definition ok :: "response \<Rightarrow> bool" where
  "ok r \<longleftrightarrow> 200 \<le> status r \<and> status r \<le> 299"

text \<open>\<open>isCacheable(response, _strategy)\<close>; a comparison with \<open>NaN\<close> is false.\<close>

definition isCacheable :: "response \<Rightarrow> strategy \<Rightarrow> bool" where
  "isCacheable r u_strategy =
     (if \<not> ok r \<and> status r \<noteq> 404 then False
      else
        let cacheControl = header_or r ''cache-control'' ''''
        in if str_includes cacheControl ''no-cache'' \<or> str_includes cacheControl ''no-store'' then False
           else if header_truthy r ''authorization'' \<or> header_truthy r ''set-cookie'' then False
           else
             let contentLength = parseInt (header_or r ''content-length'' ''0'')
             in if (case contentLength of None \<Rightarrow> False | Some n \<Rightarrow> n > 10 * 1024 * 1024)
                then False
                else True)"

text \<open>
  What the collaborators of \<open>set\<close> do in one call: whether \<open>new URL(url)\<close> in
  \<open>generateCacheKey\<close> accepts the URL, whether \<open>response.arrayBuffer()\<close> resolves,
  and whether serialising the entry and \<open>kvStore.put\<close> succeed. A failure of any of
  them is an exception, which the \<open>catch\<close> of \<open>set\<close> turns into \<open>false\<close>.
\<close>

record cache_env =
  urlParses :: bool
  bodyReads :: bool
  putSucceeds :: bool

text \<open>
  \<open>set(url, response, context)\<close>, the spec's \<open>store\<close>, as its boolean result. The
  entry written to the store (key, expiry, freshness) is computed without a throw and
  does not bear on the result.
\<close>

definition set_cache :: "cache_env \<Rightarrow> string \<Rightarrow> response \<Rightarrow> bool" where
  "set_cache env url r =
     (let contentType = header_or r ''content-type'' ''default'';
          cacheStrategy = getCacheStrategy contentType
      in if \<not> isCacheable r cacheStrategy then False
         else if \<not> urlParses env then False
         else if \<not> bodyReads env then False
         else if \<not> putSucceeds env then False
         else True)"

section \<open>Sequences of operations\<close>

text \<open>
  The calls that change a load balancer, each with what the environment supplies to it:
  the health checker as it stands at the call, the clock and the random draw.
\<close>

datatype operation =
    Select HealthChecker int request_context real
  | Failover HealthChecker int string request_context real
  | Release string
  | SetWeight string real
  | SetAlgorithm string
  | RecordLatency string int int
  | AddGeographicMapping string string

fun step :: "LoadBalancer \<Rightarrow> operation \<Rightarrow> LoadBalancer" where
  "step lb (Select hc now ctx u) = snd (getOptimalOrigin lb hc now ctx u)"
| "step lb (Failover hc now failedOrigin ctx u) = snd (getFailoverOrigin lb hc now failedOrigin ctx u)"
| "step lb (Release orig) = releaseConnection lb orig"
| "step lb (SetWeight orig weight) = snd (setWeight lb orig weight)"
| "step lb (SetAlgorithm algorithm) = snd (setAlgorithm lb algorithm)"
| "step lb (RecordLatency orig l now) = recordLatency lb orig l now"
| "step lb (AddGeographicMapping colo orig) = snd (addGeographicMapping lb colo orig)"

definition run :: "LoadBalancer \<Rightarrow> operation list \<Rightarrow> LoadBalancer" where
  "run lb ops = foldl step lb ops"

section \<open>Notions of the specification\<close>

text \<open>The invariant of the load balancer state: weights above 0, counts not below 0.\<close>

definition weights_positive :: "LoadBalancer \<Rightarrow> bool" where
  "weights_positive lb \<longleftrightarrow> (\<forall>orig w. weights lb orig = Some w \<longrightarrow> 0 < w)"

definition counts_nonneg :: "LoadBalancer \<Rightarrow> bool" where
  "counts_nonneg lb \<longleftrightarrow> (\<forall>orig c. connectionCounts lb orig = Some c \<longrightarrow> 0 \<le> c)"

definition LoadBalancer_inv :: "LoadBalancer \<Rightarrow> bool" where
  "LoadBalancer_inv lb \<longleftrightarrow> weights_positive lb \<and> counts_nonneg lb"

text \<open>
  The formula of the specification for the health score, in exact arithmetic; the count
  is that of the logged errors whose timestamp lies within the last five probe intervals.
\<close>

definition healthScore_formula :: "HealthChecker \<Rightarrow> metrics \<Rightarrow> int \<Rightarrow> real" where
  "healthScore_formula hc m now =
     0.4 * 100 * successRate m
     + 0.3 * max 0 (100 * (1 - averageResponseTime m / healthThresholds_responseTime))
     + 0.3 * max 0 (100 - 20 * real (length (filter (\<lambda>e. now - err_timestamp e < 5 * checkInterval hc)
                                                   (errors m))))"

text \<open>A bound on the rounding error of one operation whose result is at most 256.\<close>

definition double_eps :: real where
  "double_eps = 1 / 2 ^ 44"


section \<open>Example inputs\<close>

text \<open>A snapshot taken at time 1012 that passed all four checks.\<close>

definition fresh :: cached where
  "fresh = \<lparr> health = \<lparr> healthy = True, responseTime = Some 12, error = None,
                          h_timestamp = 1000,
                          checks = \<lparr> connectivity = True, responseTimeCheck = True,
                                     statusCode = True, ssl = True \<rparr> \<rparr>,
              timestamp = 1012 \<rparr>"

text \<open>A health checker with the default interval that has probed two origins.\<close>

definition hc_ab :: HealthChecker where
  "hc_ab = (new_HealthChecker \<lparr> MONITORING_INTERVAL = None, FAILOVER_TIMEOUT = None \<rparr>)
             \<lparr> healthCache := [''health:https://a'' \<mapsto> fresh, ''health:https://b'' \<mapsto> fresh] \<rparr>"

definition ctx0 :: request_context where
  "ctx0 = \<lparr> edgeColo = Some ''LAX'', country = Some ''US'', userAgent = None,
            isFailover = False \<rparr>"

definition lb_ab :: LoadBalancer where
  "lb_ab = new_LoadBalancer [''https://a'', ''https://b'']"

text \<open>A failed probe logged at time \<open>t\<close>.\<close>

definition failed_checks :: checks where
  "failed_checks = \<lparr> connectivity = False, responseTimeCheck = False, statusCode = True,
                      ssl = True \<rparr>"

definition failure_at :: "int \<Rightarrow> error_entry" where
  "failure_at t = \<lparr> err_timestamp = t, err_error = None, err_checks = failed_checks \<rparr>"

text \<open>Metrics after four probes, one of them failed 100 s before time 1000000.\<close>

definition m0 :: metrics where
  "m0 = \<lparr> totalChecks = 4, successfulChecks = 3, totalResponseTime = 1600,
          errors = [failure_at 100000, failure_at 900000],
          successRate = 3 / 4, averageResponseTime = 400, errorRate = 1 / 4 \<rparr>"

text \<open>
  Metrics after five probes that all failed within the 100 s before time 1000000, with
  an average response time of 1100 ms.
\<close>

definition m_half :: metrics where
  "m_half = \<lparr> totalChecks = 5, successfulChecks = 0, totalResponseTime = 5500,
              errors = [failure_at 900000, failure_at 920000, failure_at 940000,
                        failure_at 960000, failure_at 980000],
              successRate = 0, averageResponseTime = 1100, errorRate = 1 \<rparr>"


definition lb_single :: LoadBalancer where
  "lb_single = new_LoadBalancer [''https://a'']"

text \<open>
  A run under least-connections: a selection, two releases of the selected origin, a
  valid and an invalid change of weight.
\<close>

definition ops0 :: "operation list" where
  "ops0 = [SetAlgorithm ''least_connections'', Select hc_ab 2000 ctx0 0,
           Release ''https://a'', Release ''https://a'',
           SetWeight ''https://b'' 3, SetWeight ''https://a'' 0]"

text \<open>A call in which every collaborator of \<open>set\<close> succeeds.\<close>

definition env_ok :: cache_env where
  "env_ok = \<lparr> urlParses = True, bodyReads = True, putSucceeds = True \<rparr>"

text \<open>A 200 response without headers whose body is one byte longer than 10 MiB.\<close>

definition r_big :: response where
  "r_big = \<lparr> status = 200, headers = Map.empty, body = replicate (10 * 1024 * 1024 + 1) 0 \<rparr>"

text \<open>
  A 200 response that carries a \<open>set-cookie\<close> and an \<open>authorization\<close> header,
  both with an empty value.
\<close>

definition r_cookie :: response where
  "r_cookie = \<lparr> status = 200,
                headers = [''set-cookie'' \<mapsto> '''', ''authorization'' \<mapsto> ''''],
                body = [] \<rparr>"

text \<open>A small HTML page with an explicit \<open>max-age\<close> and a declared length.\<close>

definition r_html :: response where
  "r_html = \<lparr> status = 200,
              headers = [''content-type'' \<mapsto> ''text/html'', ''cache-control'' \<mapsto> ''max-age=60'',
                         ''content-length'' \<mapsto> ''5''],
              body = [104, 101, 108, 108, 111] \<rparr>"

section \<open>Auxiliary facts\<close>

lemmas example_defs = lb_ab_def new_LoadBalancer_def initializeWeights_def
  initializeGeographicMapping_def isOriginHealthy_def hc_ab_def fresh_def
  new_HealthChecker_def or_default_def ctx0_def

lemmas algorithm_defs = algorithms_def ROUND_ROBIN_def LEAST_CONNECTIONS_def
  WEIGHTED_ROUND_ROBIN_def LATENCY_BASED_def GEOGRAPHIC_def HEALTH_SCORE_def

lemma lb_ab_fields:
  "origins lb_ab = [''https://a'', ''https://b'']"
  "connectionCounts lb_ab ''https://a'' = Some 0"
  "connectionCounts lb_ab ''https://b'' = Some 0"
  by (simp_all add: lb_ab_def new_LoadBalancer_def initializeWeights_def
      initializeGeographicMapping_def)

lemma healthy_hc_ab:
  "isOriginHealthy hc_ab ''https://a'' 2000" "isOriginHealthy hc_ab ''https://b'' 2000"
  by (simp_all add: isOriginHealthy_def hc_ab_def fresh_def new_HealthChecker_def or_default_def)






subsection \<open>Rounding to a double\<close>

lemma roundTiesToEven_error: "\<bar>real_of_int (roundTiesToEven z) - z\<bar> \<le> 1 / 2"
proof -
  have "of_int \<lfloor>z\<rfloor> \<le> z" "z < of_int \<lfloor>z\<rfloor> + 1" by linarith+
  then show ?thesis by (auto simp: roundTiesToEven_def Let_def)
qed

lemma roundTiesToEven_nonneg: "0 \<le> z \<Longrightarrow> 0 \<le> roundTiesToEven z"
  by (auto simp: roundTiesToEven_def Let_def)

lemma scaled_rounding_error:
  fixes K P r s x y :: real
  assumes K: "0 < K" and P: "0 < P" and s: "\<bar>s\<bar> \<le> 1"
    and x: "x = s * y / K" and r: "\<bar>r - y / P\<bar> \<le> 1 / 2"
  shows "\<bar>s * r * P / K - x\<bar> \<le> P / (2 * K)"
proof -
  have "s * r * P / K - x = s * ((r - y / P) * (P / K))"
    using K P by (simp add: x field_simps)
  then have "\<bar>s * r * P / K - x\<bar> = \<bar>s\<bar> * (\<bar>r - y / P\<bar> * (P / K))"
    using K P by (simp add: abs_mult)
  also have "\<dots> \<le> 1 * ((1 / 2) * (P / K))"
    using K P s r by (intro mult_mono mult_right_mono) auto
  finally show ?thesis by simp
qed

lemma double_error: "\<bar>double x - x\<bar> \<le> \<bar>x\<bar> / 2 ^ 53 + 1 / 2 ^ 1075"
proof -
  define K :: real where "K = 2 ^ 1074"
  define y where "y = \<bar>x\<bar> * K"
  define e where "e = nat (bitlen \<lfloor>y\<rfloor> - 53)"
  define r where "r = real_of_int (roundTiesToEven (y / 2 ^ e))"
  have K: "0 < K" by (simp add: K_def)
  have y0: "0 \<le> y" using K by (simp add: y_def)
  have d: "double x = sgn x * r * 2 ^ e / K"
    unfolding double_def Let_def r_def e_def y_def K_def ..
  have x: "x = sgn x * y / K"
    using K by (simp add: y_def sgn_real_def)
  have b: "\<bar>double x - x\<bar> \<le> 2 ^ e / (2 * K)"
    unfolding d
  proof (rule scaled_rounding_error [OF K _ _ x])
    show "\<bar>r - y / 2 ^ e\<bar> \<le> 1 / 2"
      unfolding r_def by (rule roundTiesToEven_error)
  qed (simp_all add: sgn_real_def)
  have "(2::real) ^ e \<le> y / 2 ^ 52 + 1"
  proof (cases "e = 0")
    case True
    with y0 show ?thesis by simp
  next
    case False
    then have bl: "bitlen \<lfloor>y\<rfloor> = int e + 53" by (simp add: e_def)
    then have pos: "0 < \<lfloor>y\<rfloor>" using bitlen_eq_zero_iff [of "\<lfloor>y\<rfloor>"] by linarith
    from bitlen_bounds [OF pos] have "2 ^ nat (bitlen \<lfloor>y\<rfloor> - 1) \<le> \<lfloor>y\<rfloor>" by simp
    moreover have "nat (bitlen \<lfloor>y\<rfloor> - 1) = e + 52" using bl by simp
    ultimately have "(2::int) ^ (e + 52) \<le> \<lfloor>y\<rfloor>" by simp
    then have "real_of_int (2 ^ (e + 52)) \<le> real_of_int \<lfloor>y\<rfloor>" by linarith
    also have "\<dots> \<le> y" by simp
    finally have "(2::real) ^ e * 2 ^ 52 \<le> y" by (simp add: power_add)
    then have "(2::real) ^ e \<le> y / 2 ^ 52" by (simp add: field_simps)
    then show ?thesis by simp
  qed
  then have "(2::real) ^ e / (2 * K) \<le> (y / 2 ^ 52 + 1) / (2 * K)"
    using K by (intro divide_right_mono) simp_all
  also have "\<dots> = \<bar>x\<bar> / 2 ^ 53 + 1 / (2 * K)"
    using K by (simp add: y_def field_simps)
  also have "1 / (2 * K) = 1 / 2 ^ 1075"
    by (simp add: K_def)
  finally show ?thesis using b by linarith
qed

lemma double_nonneg: "0 \<le> x \<Longrightarrow> 0 \<le> double x"
  by (auto simp: double_def Let_def sgn_real_def intro!: roundTiesToEven_nonneg divide_nonneg_nonneg mult_nonneg_nonneg)

lemma double_nonpos: "x \<le> 0 \<Longrightarrow> double x \<le> 0"
proof -
  assume "x \<le> 0"
  have "0 \<le> real_of_int (roundTiesToEven (\<bar>x\<bar> * 2 ^ 1074 / 2 ^ nat (bitlen \<lfloor>\<bar>x\<bar> * 2 ^ 1074\<rfloor> - 53)))"
    by (simp add: roundTiesToEven_nonneg)
  with \<open>x \<le> 0\<close> show ?thesis
    by (auto simp: double_def Let_def sgn_real_def mult_nonneg_nonneg divide_nonneg_nonneg
        intro!: mult_nonneg_nonneg divide_nonneg_nonneg)
qed


lemma double_zero: "double 0 = 0"
  by (simp add: double_def)

lemma double_normal:
  assumes lo: "2 ^ 52 \<le> x * 2 ^ k" and hi: "x * 2 ^ k < 2 ^ 53" and k: "k \<le> 1074"
  shows "double x = real_of_int (roundTiesToEven (x * 2 ^ k)) / 2 ^ k"
proof -
  define j where "j = 1074 - k"
  have "k + j = 1074" using k by (simp add: j_def)
  then have K: "(2::real) ^ 1074 = 2 ^ k * 2 ^ j" by (metis power_add)
  have x: "0 < x"
  proof (rule ccontr)
    assume "\<not> 0 < x"
    then have "x * 2 ^ k \<le> 0" by (simp add: mult_le_0_iff)
    with lo show False by (smt (verit) zero_less_power)
  qed
  define y where "y = x * 2 ^ k * 2 ^ j"
  have ylo: "real_of_int (2 ^ (52 + j)) \<le> y"
    using lo by (simp add: y_def power_add mult_right_mono)
  have yhi: "y < real_of_int (2 ^ (53 + j))"
    using hi by (simp add: y_def power_add mult_strict_right_mono)
  have nlo: "2 ^ (52 + j) \<le> \<lfloor>y\<rfloor>" using ylo by (simp only: le_floor_iff)
  have nhi: "\<lfloor>y\<rfloor> < 2 ^ (53 + j)" using yhi by (simp only: floor_less_iff)
  have n1: "nat (int (53 + j)) = 53 + j" and n2: "nat (int (53 + j)) - 1 = 52 + j"
    by simp_all
  have "bitlen \<lfloor>y\<rfloor> \<le> int (53 + j)"
    unfolding bitlen_le_iff_power n1 using nhi by simp
  moreover have "int (53 + j) \<le> bitlen \<lfloor>y\<rfloor>"
    unfolding bitlen_ge_iff_power n2 using nlo by simp
  ultimately have bl: "bitlen \<lfloor>y\<rfloor> = int (53 + j)" by simp
  have e: "nat (bitlen \<lfloor>y\<rfloor> - 53) = j" by (simp add: bl)
  have ax: "\<bar>x\<bar> * (2 ^ k * 2 ^ j) = y" using x by (simp add: y_def)
  have "double x = sgn x * real_of_int (roundTiesToEven (y / 2 ^ j)) * 2 ^ j / (2 ^ k * 2 ^ j)"
    unfolding double_def Let_def K ax e ..
  also have "y / 2 ^ j = x * 2 ^ k" by (simp add: y_def)
  finally show ?thesis using x by (simp add: sgn_real_def)
qed

subsection \<open>The health score at the example metrics\<close>

lemma healthScore_formula_m0: "healthScore_formula hc_ab m0 1000000 = 78"
  by (simp add: healthScore_formula_def m0_def failure_at_def hc_ab_def
      new_HealthChecker_def or_default_def healthThresholds_responseTime_def)

lemma recentErrors_m_half: "recentErrors hc_ab m_half 1000000 = 5"
  by (simp add: recentErrors_def m_half_def failure_at_def hc_ab_def new_HealthChecker_def
      or_default_def)

lemma double_t1: "double (1100 / 2000) = 4953959590107546 / 2 ^ 53"
proof -
  have "roundTiesToEven (1100 / 2000 * 2 ^ 53) = 4953959590107546"
    by (simp add: roundTiesToEven_def Let_def)
  with double_normal [of "1100 / 2000" 53] show ?thesis by simp
qed

lemma double_t2: "double (4953959590107546 / 2 ^ 53 * 100) = 7740561859543041 / 2 ^ 47"
proof -
  have "roundTiesToEven (4953959590107546 / 2 ^ 53 * 100 * 2 ^ 47) = 7740561859543041"
    by (simp add: roundTiesToEven_def Let_def)
  with double_normal [of "4953959590107546 / 2 ^ 53 * 100" 47] show ?thesis by simp
qed

lemma double_s: "double (100 - 7740561859543041 / 2 ^ 47) = 6333186975989759 / 2 ^ 47"
proof -
  have "roundTiesToEven ((100 - 7740561859543041 / 2 ^ 47) * 2 ^ 47) = 6333186975989759"
    by (simp add: roundTiesToEven_def Let_def)
  with double_normal [of "100 - 7740561859543041 / 2 ^ 47" 47] show ?thesis by simp
qed

lemma double_03: "double (3 / 10) = 5404319552844595 / 2 ^ 54"
proof -
  have "roundTiesToEven (3 / 10 * 2 ^ 54) = 5404319552844595"
    by (simp add: roundTiesToEven_def Let_def)
  with double_normal [of "3 / 10" 54] show ?thesis by simp
qed

lemma double_p2:
  "double (6333186975989759 / 2 ^ 47 * (5404319552844595 / 2 ^ 54)) = 7599824371187711 / 2 ^ 49"
proof -
  have "roundTiesToEven (6333186975989759 / 2 ^ 47 * (5404319552844595 / 2 ^ 54) * 2 ^ 49)
        = 7599824371187711"
    by (simp add: roundTiesToEven_def Let_def)
  with double_normal [of "6333186975989759 / 2 ^ 47 * (5404319552844595 / 2 ^ 54)" 49]
  show ?thesis by simp
qed

lemma double_q: "double (7599824371187711 / 2 ^ 49) = 7599824371187711 / 2 ^ 49"
proof -
  have "roundTiesToEven (7599824371187711 / 2 ^ 49 * 2 ^ 49) = 7599824371187711"
    by (simp add: roundTiesToEven_def Let_def)
  with double_normal [of "7599824371187711 / 2 ^ 49" 49] show ?thesis by simp
qed

lemma double_100: "double 100 = 100"
proof -
  have "roundTiesToEven (100 * 2 ^ 46) = 100 * 2 ^ 46"
    by (simp add: roundTiesToEven_def Let_def)
  with double_normal [of 100 46] show ?thesis by simp
qed

subsection \<open>Rounding errors of the health score\<close>

lemma double_eps_pos: "0 < double_eps" and double_eps_small: "double_eps \<le> 1 / 1000"
  by (simp_all add: double_eps_def)

lemma double_abs_error:
  assumes "\<bar>x\<bar> \<le> 256"
  shows "\<bar>double x - x\<bar> \<le> double_eps"
proof -
  have "\<bar>double x - x\<bar> \<le> \<bar>x\<bar> / 2 ^ 53 + 1 / 2 ^ 1075" by (rule double_error)
  also have "\<dots> \<le> 256 / 2 ^ 53 + 1 / 2 ^ 1075"
    using assms by (simp add: divide_right_mono)
  also have "\<dots> \<le> double_eps" by (simp add: double_eps_def)
  finally show ?thesis .
qed

lemma double_ge:
  assumes "1 \<le> c" and "c \<le> x"
  shows "9 / 10 * c \<le> double x"
proof -
  have x: "1 \<le> x" using assms by simp
  have "\<bar>double x - x\<bar> \<le> \<bar>x\<bar> / 2 ^ 53 + 1 / 2 ^ 1075" by (rule double_error)
  moreover have "\<bar>x\<bar> / 2 ^ 53 \<le> x / 100"
    using x by (simp add: field_simps)
  moreover have "(1::real) / 2 ^ 1075 \<le> 9 / 100" by simp
  ultimately show ?thesis using assms x by linarith
qed

lemma mult_error:
  fixes x y x0 y0 :: real
  assumes "\<bar>x - x0\<bar> \<le> ex" and "\<bar>y - y0\<bar> \<le> ey" and "\<bar>y\<bar> \<le> Y" and "\<bar>x0\<bar> \<le> X"
  shows "\<bar>x * y - x0 * y0\<bar> \<le> ex * Y + X * ey"
proof -
  have "x * y - x0 * y0 = (x - x0) * y + x0 * (y - y0)" by (simp add: algebra_simps)
  then have "\<bar>x * y - x0 * y0\<bar> \<le> \<bar>x - x0\<bar> * \<bar>y\<bar> + \<bar>x0\<bar> * \<bar>y - y0\<bar>"
    by (metis abs_mult abs_triangle_ineq)
  also have "\<dots> \<le> ex * Y + X * ey"
    using assms by (intro add_mono mult_mono) auto
  finally show ?thesis .
qed

lemma weight_bounds:
  assumes "0 \<le> c" and "c \<le> 1 / 2"
  shows "\<bar>double c - c\<bar> \<le> double_eps" and "0 \<le> double c" and "double c \<le> 1"
proof -
  show e: "\<bar>double c - c\<bar> \<le> double_eps" using assms by (intro double_abs_error) simp
  show "0 \<le> double c" using assms by (simp add: double_nonneg)
  show "double c \<le> 1" using e assms double_eps_small by linarith
qed

text \<open>A score in \<open>[0, 100]\<close> times a weight: the error of the rounded product.\<close>

lemma weighted_error:
  assumes s: "\<bar>s' - s\<bar> \<le> es" and s': "0 \<le> s'" "s' \<le> 101" and s0: "0 \<le> s" "s \<le> 100"
    and c: "0 \<le> c" "c \<le> 1 / 2"
  shows "\<bar>double (s' * double c) - s * c\<bar> \<le> es + 101 * double_eps"
proof -
  note w = weight_bounds [OF c]
  have "\<bar>s' * double c - s * c\<bar> \<le> es * 1 + 100 * double_eps"
    by (rule mult_error [OF s w(1)]) (use w s0 in auto)
  moreover have "\<bar>s' * double c\<bar> \<le> 256"
  proof -
    have "s' * double c \<le> 101 * 1" using s' w by (intro mult_mono) auto
    moreover have "0 \<le> s' * double c" using s' w by simp
    ultimately show ?thesis by simp
  qed
  then have "\<bar>double (s' * double c) - s' * double c\<bar> \<le> double_eps"
    by (rule double_abs_error)
  ultimately show ?thesis by linarith
qed

lemma successScore_error:
  assumes "0 \<le> r" and "r \<le> 1"
  shows "\<bar>double (r * 100) - 100 * r\<bar> \<le> double_eps"
    and "0 \<le> double (r * 100)" and "double (r * 100) \<le> 101"
proof -
  have "\<bar>double (r * 100) - r * 100\<bar> \<le> double_eps"
    using assms by (intro double_abs_error) simp
  then show e: "\<bar>double (r * 100) - 100 * r\<bar> \<le> double_eps" by (simp add: mult.commute)
  show "0 \<le> double (r * 100)" using assms by (simp add: double_nonneg)
  show "double (r * 100) \<le> 101" using e assms double_eps_small by linarith
qed

lemma responseScore_error:
  assumes a: "0 \<le> a"
  defines "R' \<equiv> max 0 (double (100 - double (double (a / 2000) * 100)))"
    and "R \<equiv> max 0 (100 * (1 - a / 2000))"
  shows "\<bar>R' - R\<bar> \<le> 102 * double_eps" and "0 \<le> R'" and "R' \<le> 101"
    and "0 \<le> R" and "R \<le> 100"
proof -
  show "0 \<le> R'" "0 \<le> R" by (simp_all add: R'_def R_def)
  show R100: "R \<le> 100" using a by (simp add: R_def)
  have "\<bar>R' - R\<bar> \<le> 102 * double_eps \<and> R' \<le> 101"
  proof (cases "a \<le> 4000")
    case True
    define t1 where "t1 = double (a / 2000)"
    define t2 where "t2 = double (t1 * 100)"
    define s where "s = double (100 - t2)"
    have e1: "\<bar>t1 - a / 2000\<bar> \<le> double_eps"
      unfolding t1_def using a True by (intro double_abs_error) simp
    have t1: "0 \<le> t1" unfolding t1_def using a by (simp add: double_nonneg)
    have "\<bar>t1 * 100\<bar> \<le> 256" using e1 t1 True double_eps_small by simp
    then have e2: "\<bar>t2 - t1 * 100\<bar> \<le> double_eps"
      unfolding t2_def by (rule double_abs_error)
    have t2: "0 \<le> t2" unfolding t2_def using t1 by (simp add: double_nonneg)
    have "\<bar>100 - t2\<bar> \<le> 256" using e1 e2 t2 True double_eps_small by simp
    then have e3: "\<bar>s - (100 - t2)\<bar> \<le> double_eps"
      unfolding s_def by (rule double_abs_error)
    have "\<bar>s - 100 * (1 - a / 2000)\<bar> \<le> 102 * double_eps"
      using e1 e2 e3 by (simp add: algebra_simps)
    moreover have "R' = max 0 s" by (simp add: R'_def s_def t2_def t1_def)
    ultimately have "\<bar>R' - R\<bar> \<le> 102 * double_eps" unfolding R_def by linarith
    then show ?thesis using R100 double_eps_small by linarith
  next
    case False
    then have "2 \<le> a / 2000" by simp
    from double_ge [OF _ this] have "9 / 5 \<le> double (a / 2000)" by simp
    then have "180 \<le> double (a / 2000) * 100" by simp
    from double_ge [OF _ this] have "162 \<le> double (double (a / 2000) * 100)" by simp
    then have "100 - double (double (a / 2000) * 100) \<le> 0" by simp
    then have "double (100 - double (double (a / 2000) * 100)) \<le> 0" by (rule double_nonpos)
    then have "R' = 0" by (simp add: R'_def)
    moreover have "R = 0" using False by (simp add: R_def)
    ultimately show ?thesis using double_eps_pos by simp
  qed
  then show "\<bar>R' - R\<bar> \<le> 102 * double_eps" "R' \<le> 101" by simp_all
qed

lemma recentScore_error:
  defines "C' \<equiv> \<lambda>k::nat. max 0 (double (100 - double (real k * 20)))"
    and "C \<equiv> \<lambda>k::nat. max 0 (100 - 20 * real k)"
  shows "\<bar>C' k - C k\<bar> \<le> 2 * double_eps" and "0 \<le> C' k" and "C' k \<le> 101"
    and "0 \<le> C k" and "C k \<le> 100"
proof -
  show "0 \<le> C' k" "0 \<le> C k" by (simp_all add: C'_def C_def)
  show C100: "C k \<le> 100" by (simp add: C_def)
  have "\<bar>C' k - C k\<bar> \<le> 2 * double_eps \<and> C' k \<le> 101"
  proof (cases "k \<le> 5")
    case True
    define u where "u = double (real k * 20)"
    define v where "v = double (100 - u)"
    have k: "real k \<le> 5" using True by simp
    have e1: "\<bar>u - real k * 20\<bar> \<le> double_eps"
      unfolding u_def using k by (intro double_abs_error) simp
    have u: "0 \<le> u" unfolding u_def by (simp add: double_nonneg)
    have "\<bar>100 - u\<bar> \<le> 256" using e1 u k double_eps_small by simp
    then have e2: "\<bar>v - (100 - u)\<bar> \<le> double_eps"
      unfolding v_def by (rule double_abs_error)
    have "\<bar>v - (100 - 20 * real k)\<bar> \<le> 2 * double_eps"
      using e1 e2 by linarith
    moreover have "C' k = max 0 v" by (simp add: C'_def v_def u_def)
    ultimately have "\<bar>C' k - C k\<bar> \<le> 2 * double_eps" unfolding C_def by linarith
    then show ?thesis using C100 double_eps_small by linarith
  next
    case False
    then have "6 \<le> real k" by simp
    then have "120 \<le> real k * 20" by simp
    from double_ge [OF _ this] have "108 \<le> double (real k * 20)" by simp
    then have "100 - double (real k * 20) \<le> 0" by simp
    then have "double (100 - double (real k * 20)) \<le> 0" by (rule double_nonpos)
    then have "C' k = 0" by (simp add: C'_def)
    moreover have "C k = 0" using \<open>6 \<le> real k\<close> by (simp add: C_def)
    ultimately show ?thesis using double_eps_pos by simp
  qed
  then show "\<bar>C' k - C k\<bar> \<le> 2 * double_eps" "C' k \<le> 101" by simp_all
qed


lemma round_near:
  fixes x y :: real
  assumes "\<bar>x - y\<bar> \<le> d" and "d < 1"
  shows "\<bar>round x - round y\<bar> \<le> 1"
proof -
  have x: "real_of_int (round x) \<le> x + 1 / 2" "x + 1 / 2 < real_of_int (round x) + 1"
    unfolding round_def by linarith+
  have y: "real_of_int (round y) \<le> y + 1 / 2" "y + 1 / 2 < real_of_int (round y) + 1"
    unfolding round_def by linarith+
  have "real_of_int (round x) < real_of_int (round y + 2)"
    and "real_of_int (round y) < real_of_int (round x + 2)"
    using x y assms by simp_all
  then have "round x < round y + 2" and "round y < round x + 2"
    by (simp_all only: of_int_less_iff)
  then show ?thesis by linarith
qed

lemma round_far_from_half:
  fixes x y :: real
  assumes d: "\<bar>x - y\<bar> \<le> d" and far: "d < \<bar>frac y - 1 / 2\<bar>"
  shows "round x = round y"
proof -
  define n where "n = \<lfloor>y\<rfloor>"
  have f: "frac y = y - of_int n" "0 \<le> frac y" "frac y < 1"
    using frac_lt_1 [of y] frac_ge_0 [of y] by (simp_all add: frac_def n_def)
  have d0: "0 \<le> d" using d by linarith
  have dh: "d < 1 / 2" using far f by linarith
  show ?thesis
  proof (cases "frac y < 1 / 2")
    case True
    then have fy: "frac y < 1 / 2 - d" using far by linarith
    have "round y = n" unfolding round_def
      by (rule floor_unique) (use f True in linarith)+
    moreover have "round x = n" unfolding round_def
      by (rule floor_unique) (use f fy d dh in linarith)+
    ultimately show ?thesis by simp
  next
    case False
    then have fy: "1 / 2 + d < frac y" using far by linarith
    have "round y = n + 1" unfolding round_def
      by (rule floor_unique) (use f False in \<open>simp; linarith\<close>)+
    moreover have "round x = n + 1" unfolding round_def
      by (rule floor_unique) (use f fy d dh in \<open>simp; linarith\<close>)+
    ultimately show ?thesis by simp
  qed
qed

subsection \<open>Evaluation of the cache on the examples\<close>

lemma parseInt_0: "parseInt ''0'' = Some 0"
  by (simp add: parseInt_def isWhiteSpace_def isDigit_def digitValue_def)

lemma parseInt_5: "parseInt ''5'' = Some 5"
  by (simp add: parseInt_def isWhiteSpace_def isDigit_def digitValue_def)

lemma parseInt_10485761: "parseInt ''10485761'' = Some 10485761"
  by (simp add: parseInt_def isWhiteSpace_def isDigit_def digitValue_def)

lemma set_cache_no_headers:
  assumes "status r = 200" and "headers r = Map.empty"
  shows "set_cache env_ok url r"
  using assms
  by (simp add: set_cache_def isCacheable_def ok_def header_or_def header_truthy_def env_ok_def
      parseInt_0)

lemma r_big_fields:
  "status r_big = 200" "headers r_big = Map.empty" "length (body r_big) = 10 * 1024 * 1024 + 1"
  unfolding r_big_def by (simp_all only: response.select_convs length_replicate)

subsection \<open>Preservation of the invariant\<close>

lemma weights_positive_upd:
  "weights_positive lb \<Longrightarrow> 0 < w \<Longrightarrow> weights lb' = (weights lb)(orig \<mapsto> w) \<Longrightarrow> weights_positive lb'"
  unfolding weights_positive_def by (metis fun_upd_apply option.inject)

lemma counts_nonneg_upd:
  "counts_nonneg lb \<Longrightarrow> 0 \<le> c \<Longrightarrow> connectionCounts lb' = (connectionCounts lb)(orig \<mapsto> c)
     \<Longrightarrow> counts_nonneg lb'"
  unfolding counts_nonneg_def by (metis fun_upd_apply option.inject)

lemma weights_positive_same:
  "weights_positive lb \<Longrightarrow> weights lb' = weights lb \<Longrightarrow> weights_positive lb'"
  by (simp add: weights_positive_def)

lemma counts_nonneg_same:
  "counts_nonneg lb \<Longrightarrow> connectionCounts lb' = connectionCounts lb \<Longrightarrow> counts_nonneg lb'"
  by (simp add: counts_nonneg_def)

lemma inv_unchanged:
  assumes "LoadBalancer_inv lb" and "weights lb' = weights lb"
    and "connectionCounts lb' = connectionCounts lb"
  shows "LoadBalancer_inv lb'"
  using assms weights_positive_same [of lb lb'] counts_nonneg_same [of lb lb']
  by (simp add: LoadBalancer_inv_def)

lemma or_default_nonneg:
  assumes "counts_nonneg lb"
  shows "0 \<le> or_default (connectionCounts lb orig) 0"
proof (cases "connectionCounts lb orig")
  case None
  then show ?thesis by (simp add: or_default_def)
next
  case (Some c)
  with assms have "0 \<le> c" unfolding counts_nonneg_def by blast
  with Some show ?thesis by (simp add: or_default_def)
qed


lemma if_both: "Q A \<Longrightarrow> Q B \<Longrightarrow> Q (if P then A else B)"
  by simp

lemma leastConnections_loop_nonneg:
  assumes "counts_nonneg lb"
  shows "0 \<le> snd start \<Longrightarrow> 0 \<le> snd (leastConnections_loop (connectionCounts lb) os start)"
proof (induction os arbitrary: start)
  case Nil
  then show ?case by (cases start) simp
next
  case (Cons orig os)
  obtain selectedOrigin minConnections where s: "start = (selectedOrigin, minConnections)"
    by (cases start)
  have c: "0 \<le> or_default (connectionCounts lb orig) 0"
    by (rule or_default_nonneg [OF assms])
  have m: "0 \<le> minConnections" using Cons.prems by (simp add: s)
  have 1: "0 \<le> snd (leastConnections_loop (connectionCounts lb) os
                        (orig, or_default (connectionCounts lb orig) 0))"
    by (rule Cons.IH) (simp add: c)
  have 2: "0 \<le> snd (leastConnections_loop (connectionCounts lb) os (selectedOrigin, minConnections))"
    by (rule Cons.IH) (simp add: m)
  show ?case
    unfolding s leastConnections_loop.simps Let_def using 1 2 by (rule if_both)
qed

lemma inv_initializeWeights_fold:
  "LoadBalancer_inv lb \<Longrightarrow>
   LoadBalancer_inv (foldl (\<lambda>s orig. s\<lparr> weights := (weights s)(orig \<mapsto> 1),
                          connectionCounts := (connectionCounts s)(orig \<mapsto> 0) \<rparr>) lb os)"
proof (induction os arbitrary: lb)
  case Nil
  then show ?case by simp
next
  case (Cons orig os)
  let ?lb = "lb\<lparr> weights := (weights lb)(orig \<mapsto> 1),
                 connectionCounts := (connectionCounts lb)(orig \<mapsto> 0) \<rparr>"
  from Cons.prems have w: "weights_positive lb" and c: "counts_nonneg lb"
    by (simp_all add: LoadBalancer_inv_def)
  have "weights_positive ?lb"
    by (rule weights_positive_upd [OF w, of 1 _ orig]) simp_all
  moreover have "counts_nonneg ?lb"
    by (rule counts_nonneg_upd [OF c, of 0 _ orig]) simp_all
  ultimately have "LoadBalancer_inv ?lb" by (simp add: LoadBalancer_inv_def)
  from Cons.IH [OF this] show ?case by (simp only: foldl_Cons)
qed

lemma inv_new: "LoadBalancer_inv (new_LoadBalancer os)"
proof -
  let ?base = "\<lparr> origins = os, currentAlgorithm = HEALTH_SCORE, roundRobinIndex = 0,
         connectionCounts = Map.empty, latencyHistory = Map.empty, weights = Map.empty,
         geographicMapping = Map.empty \<rparr>"
  have "LoadBalancer_inv ?base"
    by (simp add: LoadBalancer_inv_def weights_positive_def counts_nonneg_def)
  then have "LoadBalancer_inv (initializeWeights ?base)"
    unfolding initializeWeights_def by (rule inv_initializeWeights_fold)
  then show ?thesis
    unfolding new_LoadBalancer_def
    by (simp add: initializeGeographicMapping_def LoadBalancer_inv_def
        weights_positive_def counts_nonneg_def)
qed


lemma inv_roundRobin:
  assumes "LoadBalancer_inv lb"
  shows "LoadBalancer_inv (snd (roundRobin lb os))"
  by (rule inv_unchanged [OF assms]) (simp_all add: roundRobin_def)

lemma inv_leastConnections:
  assumes "LoadBalancer_inv lb"
  shows "LoadBalancer_inv (snd (leastConnections lb os))"
proof (cases os)
  case Nil
  with assms show ?thesis by simp
next
  case (Cons first rest)
  from assms have w: "weights_positive lb" and c: "counts_nonneg lb"
    by (simp_all add: LoadBalancer_inv_def)
  obtain selectedOrigin minConnections where
    l: "leastConnections_loop (connectionCounts lb) (first # rest)
          (first, or_default (connectionCounts lb first) 0) = (selectedOrigin, minConnections)"
    by (cases "leastConnections_loop (connectionCounts lb) (first # rest)
          (first, or_default (connectionCounts lb first) 0)")
  have "0 \<le> snd (leastConnections_loop (connectionCounts lb) (first # rest)
                       (first, or_default (connectionCounts lb first) 0))"
    by (rule leastConnections_loop_nonneg [OF c]) (simp add: or_default_nonneg [OF c])
  then have m: "0 \<le> minConnections + 1" unfolding l by simp
  have r: "snd (leastConnections lb os)
           = lb\<lparr> connectionCounts := (connectionCounts lb)(selectedOrigin \<mapsto> minConnections + 1) \<rparr>"
    unfolding Cons leastConnections.simps l by simp
  have "counts_nonneg (snd (leastConnections lb os))"
    by (rule counts_nonneg_upd [OF c m, of _ selectedOrigin]) (simp add: r)
  moreover have "weights_positive (snd (leastConnections lb os))"
    by (rule weights_positive_same [OF w]) (simp add: r)
  ultimately show ?thesis by (simp add: LoadBalancer_inv_def)
qed

lemma inv_snd_if:
  "LoadBalancer_inv (snd A) \<Longrightarrow> LoadBalancer_inv (snd B)
     \<Longrightarrow> LoadBalancer_inv (snd (if P then A else B))"
  by simp

lemma inv_getOptimalOrigin:
  assumes "LoadBalancer_inv lb"
  shows "LoadBalancer_inv (snd (getOptimalOrigin lb hc now ctx u))"
  unfolding getOptimalOrigin_def Let_def split_beta
  by (intro inv_snd_if) (simp_all only: snd_conv assms inv_roundRobin inv_leastConnections)

lemma inv_getFailoverOrigin:
  assumes "LoadBalancer_inv lb"
  shows "LoadBalancer_inv (snd (getFailoverOrigin lb hc now failedOrigin ctx u))"
  unfolding getFailoverOrigin_def Let_def
  by (intro inv_snd_if) (simp_all only: snd_conv assms inv_getOptimalOrigin)

lemma inv_releaseConnection:
  assumes "LoadBalancer_inv lb"
  shows "LoadBalancer_inv (releaseConnection lb orig)"
proof -
  from assms have w: "weights_positive lb" and c: "counts_nonneg lb"
    by (simp_all add: LoadBalancer_inv_def)
  have "counts_nonneg (releaseConnection lb orig)"
    by (rule counts_nonneg_upd [OF c, of "max 0 (or_default (connectionCounts lb orig) 0 - 1)" _ orig])
      (simp_all add: releaseConnection_def Let_def)
  moreover have "weights_positive (releaseConnection lb orig)"
    by (rule weights_positive_same [OF w]) (simp add: releaseConnection_def Let_def)
  ultimately show ?thesis by (simp add: LoadBalancer_inv_def)
qed

lemma inv_setWeight:
  assumes "LoadBalancer_inv lb"
  shows "LoadBalancer_inv (snd (setWeight lb orig weight))"
proof (cases "orig \<in> set (origins lb) \<and> weight > 0")
  case True
  from assms have w: "weights_positive lb" and c: "counts_nonneg lb"
    by (simp_all add: LoadBalancer_inv_def)
  have "weights_positive (snd (setWeight lb orig weight))"
    by (rule weights_positive_upd [OF w, of weight _ orig]) (use True in \<open>simp_all add: setWeight_def\<close>)
  moreover have "counts_nonneg (snd (setWeight lb orig weight))"
    by (rule counts_nonneg_same [OF c]) (simp add: setWeight_def)
  ultimately show ?thesis by (simp add: LoadBalancer_inv_def)
next
  case False
  then have "snd (setWeight lb orig weight) = lb" by (auto simp: setWeight_def)
  with assms show ?thesis by simp
qed

lemma inv_step:
  assumes "LoadBalancer_inv lb"
  shows "LoadBalancer_inv (step lb op)"
proof (cases op)
  case (Select hc now ctx u)
  then show ?thesis by (simp add: inv_getOptimalOrigin [OF assms])
next
  case (Failover hc now failedOrigin ctx u)
  then show ?thesis by (simp add: inv_getFailoverOrigin [OF assms])
next
  case (Release orig)
  then show ?thesis by (simp add: inv_releaseConnection [OF assms])
next
  case (SetWeight orig weight)
  then show ?thesis by (simp add: inv_setWeight [OF assms])
next
  case (SetAlgorithm algorithm)
  have "LoadBalancer_inv (snd (setAlgorithm lb algorithm))"
    by (rule inv_unchanged [OF assms]) (simp_all add: setAlgorithm_def)
  with SetAlgorithm show ?thesis by simp
next
  case (RecordLatency orig l now)
  have "LoadBalancer_inv (recordLatency lb orig l now)"
    by (rule inv_unchanged [OF assms]) (simp_all add: recordLatency_def Let_def)
  with RecordLatency show ?thesis by simp
next
  case (AddGeographicMapping colo orig)
  have "LoadBalancer_inv (snd (addGeographicMapping lb colo orig))"
    by (rule inv_unchanged [OF assms]) (simp_all add: addGeographicMapping_def)
  with AddGeographicMapping show ?thesis by simp
qed

lemma inv_run: "LoadBalancer_inv lb \<Longrightarrow> LoadBalancer_inv (run lb ops)"
  unfolding run_def by (induction ops arbitrary: lb) (simp_all add: inv_step)

section \<open>Health score and staleness\<close>

text \<open>
  C8. Whenever the cached snapshot of an origin is older than twice the probe interval,
  \<open>isOriginHealthy\<close> answers false, whatever the snapshot's own \<open>healthy\<close> flag says.
\<close>

theorem isOriginHealthy_stale:
  assumes "healthCache hc (''health:'' @ orig) = Some entry"
    and "now - timestamp entry > 2 * checkInterval hc"
  shows "isOriginHealthy hc orig now = False"
  using assms by (simp add: isOriginHealthy_def mult.commute)

text \<open>
  The snapshot \<open>fresh\<close> of time 1012 is flagged healthy; at time 61013, more than
  two intervals of 30000 ms later, the origin no longer counts as healthy.
\<close>

theorem isOriginHealthy_stale_witness:
  "healthCache hc_ab (''health:'' @ ''https://a'') = Some fresh
   \<and> healthy (health fresh) = True
   \<and> 61013 - timestamp fresh > 2 * checkInterval hc_ab
   \<and> isOriginHealthy hc_ab ''https://a'' 61013 = False"
proof -
  have c: "healthCache hc_ab (''health:'' @ ''https://a'') = Some fresh"
    by (simp add: hc_ab_def)
  have old: "61013 - timestamp fresh > 2 * checkInterval hc_ab"
    by (simp add: hc_ab_def fresh_def new_HealthChecker_def or_default_def)
  have fl: "healthy (health fresh) = True"
    by (simp add: fresh_def)
  from isOriginHealthy_stale [OF c old] c fl old show ?thesis by blast
qed

text \<open>
  C4 as stated fails at metrics with success rate 0, average response time 1100 ms and
  five recent errors: the formula gives 0.3 * 45 = 13.5, which rounds to 14, and the code,
  whose doubles give 13.499999999999998, returns 13.
\<close>

theorem calculateHealthScore_counterexample:
  "totalChecks m_half \<noteq> 0
   \<and> calculateHealthScore hc_ab m_half 1000000 = 13
   \<and> round (healthScore_formula hc_ab m_half 1000000) = 14"
proof -
  have t: "totalChecks m_half \<noteq> 0" and sr: "successRate m_half = 0"
    and avg: "averageResponseTime m_half = 1100"
    by (simp_all add: m_half_def)
  have resp: "max 0 (double (100 - double (double (1100 / healthThresholds_responseTime) * 100)))
              = 6333186975989759 / 2 ^ 47"
    unfolding healthThresholds_responseTime_def double_t1 double_t2 double_s by simp
  have rec: "max 0 (double (100 - double (real (recentErrors hc_ab m_half 1000000) * 20))) = 0"
    unfolding recentErrors_m_half by (simp add: double_100 double_zero)
  have avg': "(if averageResponseTime m_half = 0 then 0 else averageResponseTime m_half) = 1100"
    by (simp add: avg)
  have p1: "double (double (0 * 100) * double 0.4) = 0"
    by (simp add: double_zero)
  have p2: "double (6333186975989759 / 2 ^ 47 * double 0.3) = 7599824371187711 / 2 ^ 49"
    unfolding double_03 by (rule double_p2)
  have p3: "double (0 * double 0.3) = 0"
    by (simp add: double_zero)
  have h: "double (double (0 + 7599824371187711 / 2 ^ 49) + 0) = 7599824371187711 / 2 ^ 49"
    by (simp only: add_0 add_0_right double_q)
  have "calculateHealthScore hc_ab m_half 1000000 = round (7599824371187711 / 2 ^ 49 :: real)"
    unfolding calculateHealthScore_def Let_def avg' sr resp rec p1 p2 p3 h
    using t by simp
  also have "\<dots> = 13" by (simp add: round_def)
  finally have c: "calculateHealthScore hc_ab m_half 1000000 = 13" .
  have f: "healthScore_formula hc_ab m_half 1000000 = 27 / 2"
    by (simp add: healthScore_formula_def m_half_def failure_at_def hc_ab_def
        new_HealthChecker_def or_default_def healthThresholds_responseTime_def)
  have "round (healthScore_formula hc_ab m_half 1000000) = 14"
    unfolding f by (simp add: round_def)
  with t c show ?thesis by simp
qed

text \<open>
  C4, amended. For metrics that record at least one check, with a success rate in
  \<open>[0, 1]\<close> and an average response time that is not negative, the health score is
  the weighted sum of the formula computed in doubles and rounded: it equals the rounded
  exact formula whenever the exact value is more than \<open>1e-9\<close> away from the middle
  between two integers, and it never differs from it by more than 1.
\<close>

theorem calculateHealthScore_near_formula:
  assumes t: "totalChecks m \<noteq> 0"
    and sr: "0 \<le> successRate m" "successRate m \<le> 1"
    and avg: "0 \<le> averageResponseTime m"
  shows "\<bar>calculateHealthScore hc m now - round (healthScore_formula hc m now)\<bar> \<le> 1
         \<and> (1 / 10 ^ 9 < \<bar>frac (healthScore_formula hc m now) - 1 / 2\<bar>
              \<longrightarrow> calculateHealthScore hc m now = round (healthScore_formula hc m now))"
proof -
  define k where "k = recentErrors hc m now"
  define S' where "S' = double (successRate m * 100)"
  define R' where "R' = max 0 (double (100 - double (double (averageResponseTime m / 2000) * 100)))"
  define C' where "C' = max 0 (double (100 - double (real k * 20)))"
  define S where "S = 100 * successRate m"
  define R where "R = max 0 (100 * (1 - averageResponseTime m / 2000))"
  define C where "C = max 0 (100 - 20 * real k)"
  define p1 where "p1 = double (S' * double 0.4)"
  define p2 where "p2 = double (R' * double 0.3)"
  define p3 where "p3 = double (C' * double 0.3)"
  define q where "q = double (p1 + p2)"
  define h where "h = double (q + p3)"
  define F where "F = healthScore_formula hc m now"
  have score: "calculateHealthScore hc m now = round h"
    using t by (simp add: calculateHealthScore_def Let_def h_def q_def p1_def p2_def p3_def
        S'_def R'_def C'_def k_def healthThresholds_responseTime_def)
  have k': "k = length (filter (\<lambda>e. now - err_timestamp e < 5 * checkInterval hc) (errors m))"
    by (simp add: k_def recentErrors_def mult.commute)
  have F: "F = S * 0.4 + R * 0.3 + C * 0.3"
    by (simp add: F_def healthScore_formula_def S_def R_def C_def k'
        healthThresholds_responseTime_def)
  note s = successScore_error [OF sr, folded S'_def S_def]
  note r = responseScore_error [OF avg, folded R'_def R_def]
  note c = recentScore_error [of k, folded C'_def C_def]
  have S: "0 \<le> S" "S \<le> 100" using sr by (simp_all add: S_def)
  have e1: "\<bar>p1 - S * 0.4\<bar> \<le> double_eps + 101 * double_eps"
    unfolding p1_def by (rule weighted_error [OF s(1) s(2) s(3) S]) simp_all
  have e2: "\<bar>p2 - R * 0.3\<bar> \<le> 102 * double_eps + 101 * double_eps"
    unfolding p2_def by (rule weighted_error [OF r(1) r(2) r(3) r(4) r(5)]) simp_all
  have e3: "\<bar>p3 - C * 0.3\<bar> \<le> 2 * double_eps + 101 * double_eps"
    unfolding p3_def by (rule weighted_error [OF c(1) c(2) c(3) c(4) c(5)]) simp_all
  have "\<bar>p1 + p2\<bar> \<le> 256"
    using e1 e2 S r(4) r(5) double_eps_small by linarith
  then have eq: "\<bar>q - (p1 + p2)\<bar> \<le> double_eps"
    unfolding q_def by (rule double_abs_error)
  have "\<bar>q + p3\<bar> \<le> 256"
    using eq e1 e2 e3 S r(4) r(5) c(4) c(5) double_eps_small by linarith
  then have eh: "\<bar>h - (q + p3)\<bar> \<le> double_eps"
    unfolding h_def by (rule double_abs_error)
  have "\<bar>h - F\<bar> \<le> 410 * double_eps"
    unfolding F using e1 e2 e3 eq eh by linarith
  moreover have "410 * double_eps \<le> 1 / 10 ^ 9"
    by (simp add: double_eps_def)
  ultimately have err: "\<bar>h - F\<bar> \<le> 1 / 10 ^ 9" by linarith
  have "\<bar>round h - round F\<bar> \<le> 1"
    by (rule round_near [OF err]) simp
  moreover have "round h = round F" if "1 / 10 ^ 9 < \<bar>frac F - 1 / 2\<bar>"
    by (rule round_far_from_half [OF err that])
  ultimately show ?thesis unfolding score F_def by blast
qed

text \<open>
  Success rate 3/4, average response time 400 ms and one recent error give
  30 + 24 + 24 = 78, far from a half, and the code returns 78.
\<close>

theorem calculateHealthScore_near_formula_witness:
  "totalChecks m0 \<noteq> 0 \<and> 0 \<le> successRate m0 \<and> successRate m0 \<le> 1
   \<and> 0 \<le> averageResponseTime m0
   \<and> 1 / 10 ^ 9 < \<bar>frac (healthScore_formula hc_ab m0 1000000) - 1 / 2\<bar>
   \<and> calculateHealthScore hc_ab m0 1000000 = 78"
proof -
  have t: "totalChecks m0 \<noteq> 0" and s: "0 \<le> successRate m0" "successRate m0 \<le> 1"
    and a: "0 \<le> averageResponseTime m0"
    by (simp_all add: m0_def)
  have f: "frac (78 :: real) = 0"
    using frac_of_int [of 78, where 'a = real] by simp
  have far: "1 / 10 ^ 9 < \<bar>frac (healthScore_formula hc_ab m0 1000000) - 1 / 2\<bar>"
    unfolding healthScore_formula_m0 f by simp
  have r: "round (healthScore_formula hc_ab m0 1000000) = 78"
    unfolding healthScore_formula_m0 by simp
  from calculateHealthScore_near_formula [OF t s a, of hc_ab 1000000] far r
  have "calculateHealthScore hc_ab m0 1000000 = 78" by simp
  with t s a far show ?thesis by blast
qed

section \<open>Origin selection\<close>

text \<open>
  C3. When no origin is healthy, \<open>getOptimalOrigin\<close> throws nothing and returns
  \<open>origins[0]\<close>, the first configured origin (wherever one is configured), and leaves
  the state as it was.
\<close>

theorem getOptimalOrigin_no_healthy:
  assumes "getHealthyOrigins lb hc now = []"
  shows "getOptimalOrigin lb hc now ctx u = (Inr (at_index (origins lb) 0), lb)
         \<and> (origins lb \<noteq> [] \<longrightarrow>
              fst (getOptimalOrigin lb hc now ctx u) = Inr (Some (hd (origins lb))))"
  using assms by (simp add: getOptimalOrigin_def at_index_def hd_conv_nth)

text \<open>At time 61013 both snapshots are stale, and the first origin is returned.\<close>

theorem getOptimalOrigin_no_healthy_witness:
  "getHealthyOrigins lb_ab hc_ab 61013 = []
   \<and> origins lb_ab \<noteq> []
   \<and> fst (getOptimalOrigin lb_ab hc_ab 61013 ctx0 0) = Inr (Some ''https://a'')"
proof -
  have h: "getHealthyOrigins lb_ab hc_ab 61013 = []"
    by (simp add: getHealthyOrigins_def example_defs)
  have o: "origins lb_ab = [''https://a'', ''https://b'']"
    by (simp add: example_defs)
  from getOptimalOrigin_no_healthy [OF h, of ctx0 0] h o show ?thesis
    by (simp add: at_index_def)
qed



text \<open>
  C6. \<open>setAlgorithm\<close> with a name outside the recognised set throws an error and
  leaves the state, hence the current algorithm, as it was; with a recognised name it
  succeeds and makes that name the current algorithm.
\<close>

theorem setAlgorithm_spec:
  "(algorithm \<notin> set algorithms \<longrightarrow>
      (\<exists>msg. fst (setAlgorithm lb algorithm) = Inl (Error msg))
      \<and> snd (setAlgorithm lb algorithm) = lb)
   \<and> (algorithm \<in> set algorithms \<longrightarrow>
      fst (setAlgorithm lb algorithm) = Inr ()
      \<and> currentAlgorithm (snd (setAlgorithm lb algorithm)) = algorithm)"
  by (simp add: setAlgorithm_def)

text \<open>An unknown name is refused and changes nothing; \<open>round_robin\<close> is accepted.\<close>

theorem setAlgorithm_spec_witness:
  "''bogus'' \<notin> set algorithms
   \<and> fst (setAlgorithm lb_ab ''bogus'') = Inl (Error ''Invalid algorithm: bogus'')
   \<and> currentAlgorithm (snd (setAlgorithm lb_ab ''bogus'')) = currentAlgorithm lb_ab
   \<and> ''round_robin'' \<in> set algorithms
   \<and> fst (setAlgorithm lb_ab ''round_robin'') = Inr ()
   \<and> currentAlgorithm (snd (setAlgorithm lb_ab ''round_robin'')) = ''round_robin''"
proof -
  have n: "''bogus'' \<notin> set algorithms" by (simp add: algorithm_defs)
  have y: "''round_robin'' \<in> set algorithms" by (simp add: algorithm_defs)
  have m: "fst (setAlgorithm lb_ab ''bogus'') = Inl (Error ''Invalid algorithm: bogus'')"
    using n by (simp add: setAlgorithm_def)
  from setAlgorithm_spec [of "''bogus''" lb_ab] n
  have "snd (setAlgorithm lb_ab ''bogus'') = lb_ab" by blast
  moreover from setAlgorithm_spec [of "''round_robin''" lb_ab] y
  have "fst (setAlgorithm lb_ab ''round_robin'') = Inr ()
        \<and> currentAlgorithm (snd (setAlgorithm lb_ab ''round_robin'')) = ''round_robin''" by blast
  ultimately show ?thesis using n y m by simp
qed

text \<open>
  C10. With exactly one origin configured, failover from that origin returns the origin
  itself: there is no alternative, and the last resort falls back to the failed origin.
\<close>

theorem getFailoverOrigin_single:
  assumes "origins lb = [orig]"
  shows "getFailoverOrigin lb hc now orig ctx u = (Inr (Some orig), lb)"
  using assms by (simp add: getFailoverOrigin_def at_index_def)

text \<open>A load balancer with the single origin \<open>https://a\<close>, failing over from it.\<close>

theorem getFailoverOrigin_single_witness:
  "origins lb_single = [''https://a'']
   \<and> getFailoverOrigin lb_single hc_ab 2000 ''https://a'' ctx0 0 = (Inr (Some ''https://a''), lb_single)"
proof -
  have o: "origins lb_single = [''https://a'']"
    by (simp add: lb_single_def new_LoadBalancer_def initializeWeights_def
        initializeGeographicMapping_def)
  from getFailoverOrigin_single [OF o, of hc_ab 2000 ctx0 0] o show ?thesis by simp
qed

text \<open>
  C9. From the initial state, after any sequence of selections, failovers, releases,
  changes of weight or algorithm, latency records and mapping changes, every weight is
  above 0 and every connection count is at least 0; and a release leaves the released
  origin with a count that is at least 0.
\<close>

theorem LoadBalancer_invariant:
  "LoadBalancer_inv (run (new_LoadBalancer os) ops)
   \<and> (\<exists>c. connectionCounts (releaseConnection (run (new_LoadBalancer os) ops) orig) orig = Some c
          \<and> 0 \<le> c)"
proof -
  have "\<exists>c. connectionCounts (releaseConnection lb orig) orig = Some c \<and> 0 \<le> c" for lb
    by (simp add: releaseConnection_def Let_def)
  then show ?thesis by (simp add: inv_run inv_new)
qed

theorem LoadBalancer_invariant_witness:
  "connectionCounts (run (new_LoadBalancer [''https://a'', ''https://b'']) ops0) ''https://a'' = Some 0
   \<and> weights (run (new_LoadBalancer [''https://a'', ''https://b'']) ops0) ''https://b'' = Some 3
   \<and> LoadBalancer_inv (run (new_LoadBalancer [''https://a'', ''https://b'']) ops0)"
proof -
  define s1 where "s1 = snd (setAlgorithm lb_ab ''least_connections'')"
  define s2 where "s2 = snd (getOptimalOrigin s1 hc_ab 2000 ctx0 0)"
  define s3 where "s3 = releaseConnection s2 ''https://a''"
  define s4 where "s4 = releaseConnection s3 ''https://a''"
  define s5 where "s5 = snd (setWeight s4 ''https://b'' 3)"
  define s6 where "s6 = snd (setWeight s5 ''https://a'' 0)"
  have r: "run lb_ab ops0 = s6"
    by (simp add: run_def ops0_def s1_def s2_def s3_def s4_def s5_def s6_def)
  have f1: "origins s1 = [''https://a'', ''https://b'']"
    "currentAlgorithm s1 = LEAST_CONNECTIONS"
    "connectionCounts s1 ''https://a'' = Some 0" "connectionCounts s1 ''https://b'' = Some 0"
    by (simp_all add: s1_def setAlgorithm_def algorithm_defs lb_ab_fields)
  have h1: "getHealthyOrigins s1 hc_ab 2000 = [''https://a'', ''https://b'']"
    by (simp add: getHealthyOrigins_def f1 healthy_hc_ab)
  have l1: "leastConnections s1 [''https://a'', ''https://b'']
            = (Some ''https://a'', s1\<lparr> connectionCounts := (connectionCounts s1)(''https://a'' \<mapsto> 1) \<rparr>)"
    by (simp add: f1 or_default_def)
  have s2: "s2 = s1\<lparr> connectionCounts := (connectionCounts s1)(''https://a'' \<mapsto> 1) \<rparr>"
    unfolding s2_def getOptimalOrigin_def h1 Let_def f1 l1
    by (simp add: algorithm_defs)
  have f2: "origins s2 = [''https://a'', ''https://b'']" "connectionCounts s2 ''https://a'' = Some 1"
    by (simp_all add: s2 f1)
  have f3: "origins s3 = [''https://a'', ''https://b'']" "connectionCounts s3 ''https://a'' = Some 0"
    by (simp_all add: s3_def releaseConnection_def f2 or_default_def)
  have f4: "origins s4 = [''https://a'', ''https://b'']" "connectionCounts s4 ''https://a'' = Some 0"
    by (simp_all add: s4_def releaseConnection_def f3 or_default_def)
  have f5: "origins s5 = [''https://a'', ''https://b'']" "connectionCounts s5 ''https://a'' = Some 0"
    "weights s5 ''https://b'' = Some 3"
    by (simp_all add: s5_def setWeight_def f4)
  have f6: "connectionCounts s6 ''https://a'' = Some 0" "weights s6 ''https://b'' = Some 3"
    by (simp_all add: s6_def setWeight_def f5)
  from LoadBalancer_invariant [of "[''https://a'', ''https://b'']" ops0 "''https://a''"]
  have "LoadBalancer_inv (run lb_ab ops0)" by (simp add: lb_ab_def)
  with f6 r show ?thesis by (simp add: lb_ab_def)
qed

section \<open>Cache eligibility\<close>

text \<open>
  C7 as stated fails at a response that \<open>set\<close> accepts although it carries a
  \<open>set-cookie\<close> and an \<open>authorization\<close> header: both are present with an
  empty value, which the truthiness test of \<open>isCacheable\<close> lets pass.
\<close>

theorem set_cache_counterexample:
  "set_cache env_ok ''https://x/'' r_cookie
   \<and> headers r_cookie ''set-cookie'' \<noteq> None \<and> headers r_cookie ''authorization'' \<noteq> None"
proof -
  have "set_cache env_ok ''https://x/'' r_cookie"
    by (simp add: set_cache_def isCacheable_def ok_def header_or_def header_truthy_def env_ok_def
        r_cookie_def parseInt_0)
  moreover have "headers r_cookie ''set-cookie'' \<noteq> None"
    and "headers r_cookie ''authorization'' \<noteq> None"
    by (simp_all add: r_cookie_def)
  ultimately show ?thesis by blast
qed

text \<open>
  The bound of C7 on the size of the body, at a concrete input. \<open>isCacheable\<close>
  applies its limit of 10 MiB to the declared length, so a response that declares none
  is accepted with a body above the limit, where the comment of the check reads
  ``don't cache very large responses'' and the same body with its length declared is
  refused.
\<close>

theorem set_cache_undeclared_length:
  "set_cache env_ok ''https://x/'' r_big \<and> \<not> length (body r_big) \<le> 10 * 1024 * 1024
   \<and> \<not> set_cache env_ok ''https://x/''
         (r_big\<lparr> headers := [''content-length'' \<mapsto> ''10485761''] \<rparr>)"
proof -
  have "set_cache env_ok ''https://x/'' r_big"
    by (rule set_cache_no_headers) (rule r_big_fields)+
  moreover have "\<not> length (body r_big) \<le> 10 * 1024 * 1024"
    unfolding r_big_fields by simp
  moreover have "\<not> set_cache env_ok ''https://x/''
                     (r_big\<lparr> headers := [''content-length'' \<mapsto> ''10485761''] \<rparr>)"
    by (simp add: set_cache_def isCacheable_def ok_def header_or_def header_truthy_def
        r_big_fields parseInt_10485761)
  ultimately show ?thesis by blast
qed

text \<open>
  C7, amended. \<open>set\<close> returns true only if the status is 2xx or 404, the
  \<open>cache-control\<close> header contains neither \<open>no-store\<close> nor \<open>no-cache\<close>, the
  \<open>authorization\<close> and \<open>set-cookie\<close> headers are absent or empty, and a length
  that the \<open>content-length\<close> header declares is at most 10 MiB. In particular a
  response with a non-empty \<open>set-cookie\<close> header is never accepted.
\<close>

theorem set_cache_accepts:
  assumes "set_cache env url r"
  shows "(200 \<le> status r \<and> status r \<le> 299 \<or> status r = 404)
         \<and> (\<forall>v. headers r ''cache-control'' = Some v
                \<longrightarrow> \<not> str_includes v ''no-store'' \<and> \<not> str_includes v ''no-cache'')
         \<and> (\<forall>v. headers r ''authorization'' = Some v \<longrightarrow> v = [])
         \<and> (\<forall>v. headers r ''set-cookie'' = Some v \<longrightarrow> v = [])
         \<and> (\<forall>v n. headers r ''content-length'' = Some v \<longrightarrow> parseInt v = Some n
                \<longrightarrow> n \<le> 10 * 1024 * 1024)"
proof -
  from assms have c: "isCacheable r (getCacheStrategy (header_or r ''content-type'' ''default''))"
    by (simp add: set_cache_def Let_def split: if_splits)
  have st: "200 \<le> status r \<and> status r \<le> 299 \<or> status r = 404"
    using c by (auto simp: isCacheable_def ok_def split: if_splits)
  have cc: "\<not> str_includes (header_or r ''cache-control'' '''') ''no-store''
            \<and> \<not> str_includes (header_or r ''cache-control'' '''') ''no-cache''"
    using c by (auto simp: isCacheable_def Let_def split: if_splits)
  have au: "\<not> header_truthy r ''authorization''" and sc: "\<not> header_truthy r ''set-cookie''"
    using c by (auto simp: isCacheable_def Let_def split: if_splits)
  have cl: "case parseInt (header_or r ''content-length'' ''0'') of
              None \<Rightarrow> True | Some n \<Rightarrow> n \<le> 10 * 1024 * 1024"
    using c by (auto simp: isCacheable_def Let_def split: if_splits option.splits)
  have 1: "\<forall>v. headers r ''cache-control'' = Some v
                \<longrightarrow> \<not> str_includes v ''no-store'' \<and> \<not> str_includes v ''no-cache''"
    using cc by (auto simp: header_or_def startsWith_def split: if_splits)
  have 2: "\<forall>v. headers r ''authorization'' = Some v \<longrightarrow> v = []"
    using au by (auto simp: header_truthy_def)
  have 3: "\<forall>v. headers r ''set-cookie'' = Some v \<longrightarrow> v = []"
    using sc by (auto simp: header_truthy_def)
  have 4: "\<forall>v n. headers r ''content-length'' = Some v \<longrightarrow> parseInt v = Some n
                \<longrightarrow> n \<le> 10 * 1024 * 1024"
  proof (intro allI impI)
    fix v n assume h: "headers r ''content-length'' = Some v" and p: "parseInt v = Some n"
    have "v \<noteq> []" using p by (auto simp: parseInt_def)
    with h have "header_or r ''content-length'' ''0'' = v" by (simp add: header_or_def)
    with cl p show "n \<le> 10 * 1024 * 1024" by simp
  qed
  from st 1 2 3 4 show ?thesis by blast
qed

text \<open>
  The page \<open>r_html\<close> is accepted: its status is 200, its \<open>cache-control\<close> names no
  \<open>no-store\<close>, it has no \<open>set-cookie\<close> header, and its declared length is 5.
\<close>

theorem set_cache_accepts_witness:
  "set_cache env_ok ''https://x/'' r_html
   \<and> status r_html = 200
   \<and> headers r_html ''cache-control'' = Some ''max-age=60''
   \<and> \<not> str_includes ''max-age=60'' ''no-store''
   \<and> \<not> str_includes ''max-age=60'' ''no-cache''
   \<and> headers r_html ''set-cookie'' = None
   \<and> headers r_html ''content-length'' = Some ''5''
   \<and> parseInt ''5'' = Some 5 \<and> (5::int) \<le> 10 * 1024 * 1024"
proof -
  have h: "set_cache env_ok ''https://x/'' r_html"
    by (simp add: set_cache_def isCacheable_def ok_def header_or_def header_truthy_def env_ok_def
        r_html_def parseInt_5 startsWith_def)
  have c: "headers r_html ''cache-control'' = Some ''max-age=60''"
    and l: "headers r_html ''content-length'' = Some ''5''"
    and k: "headers r_html ''set-cookie'' = None"
    and st: "status r_html = 200"
    by (simp_all add: r_html_def)
  from set_cache_accepts [OF h] c
  have n: "\<not> str_includes ''max-age=60'' ''no-store'' \<and> \<not> str_includes ''max-age=60'' ''no-cache''"
    by blast
  from set_cache_accepts [OF h] l parseInt_5
  have "(5::int) \<le> 10 * 1024 * 1024" by blast
  with h c l k st n parseInt_5 show ?thesis by blast
qed

section \<open>Failover and latency-based selection at concrete inputs\<close>

text \<open>
  C1, at a concrete input. Two origins are configured and both are healthy, the
  algorithm is round-robin and the cursor is 0. Failover from the first origin hands the
  whole healthy list to \<open>getOptimalOrigin\<close>, which returns the failed origin.
\<close>

theorem getFailoverOrigin_returns_failed:
  "isOriginHealthy hc_ab ''https://b'' 2000
   \<and> fst (getFailoverOrigin (snd (setAlgorithm lb_ab ''round_robin'')) hc_ab 2000
            ''https://a'' ctx0 0)
       = Inr (Some ''https://a'')"
  by (simp add: getFailoverOrigin_def getOptimalOrigin_def getHealthyOrigins_def roundRobin_def
      setAlgorithm_def at_index_def example_defs algorithm_defs)

text \<open>
  C2, at a concrete input. With the latency-based algorithm and two healthy origins the
  selection throws a ReferenceError instead of returning an origin.
\<close>

theorem latencyBased_throws:
  "length (getHealthyOrigins (snd (setAlgorithm lb_ab ''latency_based'')) hc_ab 2000) = 2
   \<and> currentAlgorithm (snd (setAlgorithm lb_ab ''latency_based'')) = LATENCY_BASED
   \<and> fst (getOptimalOrigin (snd (setAlgorithm lb_ab ''latency_based'')) hc_ab 2000 ctx0 0)
       = Inl (ReferenceError ''origins'')"
  by (simp add: getOptimalOrigin_def getHealthyOrigins_def latencyBased_def
      setAlgorithm_def at_index_def example_defs algorithm_defs)

end
